theory Spec2Isabelle
  imports Complex_Main "HOL-Library.Word"
begin


section \<open>Regions: validated position setter (dsp/arranger_object.cpp)\<close>

text \<open>
  A \<open>Position\<close> is represented by its total frame count (\<open>signed_frame_t\<close>), the
  quantity the comparisons and \<open>get_total_frames\<close> of the source read;
  \<open>Position ()\<close> is frame 0.  Only arranger objects of type \<open>Region\<close> are modelled:
  for them \<open>type_has_length\<close> holds and \<open>type_owned_by_region\<close> does not.  The fade
  positions exist for audio regions only (\<open>region_type_can_fade\<close>); the
  \<open>dynamic_cast\<close> to \<open>FadeableObject\<close> fails for the other region types.
\<close>

datatype RegionType = Midi | Audio | Chord | Automation

datatype PositionType = Start | End | ClipStart | LoopStart | LoopEnd | FadeIn | FadeOut

record Region =
  id_type :: RegionType
  pos :: int
  end_pos :: int
  clip_start_pos :: int
  loop_start_pos :: int
  loop_end_pos :: int
  fade_in_pos :: int
  fade_out_pos :: int
  clip_num_frames :: int

definition region_type_can_fade :: "RegionType \<Rightarrow> bool" where
  "region_type_can_fade rtype = (rtype = Audio)"

definition can_fade :: "Region \<Rightarrow> bool" where
  "can_fade r = region_type_can_fade (id_type r)"

fun is_position_valid :: "Region \<Rightarrow> int \<Rightarrow> PositionType \<Rightarrow> bool" where
  "is_position_valid r p Start =
     (if p \<ge> end_pos r then False
      else if p < 0 then False
      else if can_fade r \<and> fade_out_pos r + (- (p - pos r)) \<le> fade_in_pos r then False
      else True)"
| "is_position_valid r p LoopStart = (p < loop_end_pos r \<and> p \<ge> 0)"
| "is_position_valid r p LoopEnd =
     (if p < clip_start_pos r \<or> p \<le> loop_start_pos r then False
      else if id_type r = Audio then p \<le> clip_num_frames r
      else True)"
| "is_position_valid r p ClipStart = (p < loop_end_pos r \<and> p \<ge> 0)"
| "is_position_valid r p End =
     (if can_fade r \<and> fade_out_pos r + (p - end_pos r) \<le> fade_in_pos r then False
      else p > pos r)"
| "is_position_valid r p FadeIn =
     (if \<not> can_fade r then False
      else p \<ge> 0 \<and> p \<ge> 0 \<and> p < end_pos r - pos r \<and> p < fade_out_pos r)"
| "is_position_valid r p FadeOut =
     (if \<not> can_fade r then False
      else p \<ge> 0 \<and> p \<le> end_pos r - pos r \<and> p > fade_in_pos r)"

text \<open>
  \<open>get_position_ptr\<close> followed by the assignment \<open>*pos_ptr = *pos\<close>: \<open>None\<close> is the
  null pointer returned when the cast to \<open>FadeableObject\<close> fails.
\<close>

fun store_position :: "Region \<Rightarrow> int \<Rightarrow> PositionType \<Rightarrow> Region option" where
  "store_position r p Start = Some (r\<lparr>pos := p\<rparr>)"
| "store_position r p End = Some (r\<lparr>end_pos := p\<rparr>)"
| "store_position r p ClipStart = Some (r\<lparr>clip_start_pos := p\<rparr>)"
| "store_position r p LoopStart = Some (r\<lparr>loop_start_pos := p\<rparr>)"
| "store_position r p LoopEnd = Some (r\<lparr>loop_end_pos := p\<rparr>)"
| "store_position r p FadeIn = (if can_fade r then Some (r\<lparr>fade_in_pos := p\<rparr>) else None)"
| "store_position r p FadeOut = (if can_fade r then Some (r\<lparr>fade_out_pos := p\<rparr>) else None)"

text \<open>
  \<open>set_position\<close> returns the boolean result of the source together with the object
  after the call.
\<close>

definition set_position :: "Region \<Rightarrow> int \<Rightarrow> PositionType \<Rightarrow> bool \<Rightarrow> bool \<times> Region" where
  "set_position r p pos_type validate =
     (if validate \<and> \<not> is_position_valid r p pos_type then (False, r)
      else case store_position r p pos_type of
             None \<Rightarrow> (False, r)
           | Some r' \<Rightarrow> (True, r'))"

text \<open>The boundary invariants of the data model, one definition per clause.\<close>

definition inv_length :: "Region \<Rightarrow> bool" where
  "inv_length r = (end_pos r > pos r)"

definition inv_loop :: "Region \<Rightarrow> bool" where
  "inv_loop r = (0 \<le> loop_start_pos r \<and> loop_start_pos r < loop_end_pos r)"

definition inv_clip_start :: "Region \<Rightarrow> bool" where
  "inv_clip_start r = (0 \<le> clip_start_pos r \<and> clip_start_pos r < loop_end_pos r)"

definition inv_fade_order :: "Region \<Rightarrow> bool" where
  "inv_fade_order r = (can_fade r \<longrightarrow> fade_in_pos r < fade_out_pos r)"

definition inv_fade_bounds :: "Region \<Rightarrow> bool" where
  "inv_fade_bounds r =
     (can_fade r \<longrightarrow>
        0 \<le> fade_in_pos r \<and> fade_in_pos r \<le> end_pos r - pos r
        \<and> 0 \<le> fade_out_pos r \<and> fade_out_pos r \<le> end_pos r - pos r)"

definition region_invariants :: "Region \<Rightarrow> bool" where
  "region_invariants r =
     (inv_length r \<and> inv_loop r \<and> inv_clip_start r \<and> inv_fade_order r \<and> inv_fade_bounds r)"

text \<open>Two concrete regions used below.\<close>

definition audio_region_10 :: Region where
  "audio_region_10 =
     \<lparr> id_type = Audio, pos = 0, end_pos = 10, clip_start_pos = 0, loop_start_pos = 0,
       loop_end_pos = 10, fade_in_pos = 0, fade_out_pos = 10, clip_num_frames = 10 \<rparr>"

definition midi_region_clip5 :: Region where
  "midi_region_clip5 =
     \<lparr> id_type = Midi, pos = 0, end_pos = 10, clip_start_pos = 5, loop_start_pos = 0,
       loop_end_pos = 10, fade_in_pos = 0, fade_out_pos = 0, clip_num_frames = 0 \<rparr>"

section \<open>Tracks and solo state (gui/dsp/fader.cpp)\<close>

datatype FaderType = AudioChannel | MidiChannel | Monitor | SampleProcessor

datatype MidiFaderMode = MIDI_FADER_MODE_VEL_MULTIPLIER | MIDI_FADER_MODE_CC_VOLUME

datatype BounceMode = BOUNCE_OFF | BOUNCE_ON | BOUNCE_INHERIT

text \<open>
  The fader object: its type, the passthrough (pre-fader) flag, the owning track
  (\<open>track_\<close>, here the track's index in the tracklist, \<open>None\<close> for the null pointer),
  the values of its control ports and the fade bookkeeping fields.  Control values are
  \<open>float\<close> in the source, kept inside the range of their port, and real numbers here.
\<close>

record Fader =
  ftype :: FaderType
  passthrough :: bool
  track :: "nat option"
  mute_toggled :: bool
  solo_toggled :: bool
  listen_toggled :: bool
  amp :: real
  balance :: real
  mono_compat_enabled :: bool
  swap_phase :: bool
  midi_mode :: MidiFaderMode
  fade_in_samples :: int
  fade_out_samples :: int
  fading_out :: bool
  was_effectively_muted :: bool

text \<open>
  A track as far as the fader reads it: whether it has a channel, the channel's output
  track, whether it can be a group target and its children, the master and bounce flags,
  the output signal type, the channel's main fader and that fader's stereo output
  buffers.
\<close>

record 'a Track =
  has_channel :: bool
  output_track :: "nat option"
  can_be_group_target :: bool
  children :: "nat list"
  is_master :: bool
  bounce :: bool
  out_signal_audio :: bool
  fader :: Fader
  fader_out_l :: "'a list"
  fader_out_r :: "'a list"

text \<open>\<open>TRACKLIST->get_track (id)\<close>: an optional track.\<close>

definition get_track :: "'a Track list \<Rightarrow> nat \<Rightarrow> 'a Track option" where
  "get_track tks i = (if i < length tks then Some (tks ! i) else None)"

text \<open>
  Modelled from the spec: \<open>Track::get_soloed\<close>, \<open>Track::get_listened\<close> and the
  track span's \<open>has_soloed\<close> and \<open>has_listened\<close> (gui/dsp/track.h and track_span.h are
  missing).  A track is soloed (listened) when the solo (listen) control of its channel
  fader is on; the tracklist has a soloed (listened) track when one of its tracks is.
\<close>

definition get_soloed :: "'a Track \<Rightarrow> bool" where
  "get_soloed t = (has_channel t \<and> solo_toggled (fader t))"

definition get_listened :: "'a Track \<Rightarrow> bool" where
  "get_listened t = (has_channel t \<and> listen_toggled (fader t))"

definition has_soloed :: "'a Track list \<Rightarrow> bool" where
  "has_soloed tks = list_ex get_soloed tks"

definition has_listened :: "'a Track list \<Rightarrow> bool" where
  "has_listened tks = list_ex get_listened tks"

text \<open>
  The do-while loop over the output tracks in \<open>Fader::get_implied_soloed\<close>, started at
  track \<open>t\<close>.  The loop runs as long as the routing goes on, so the model counts
  iterations: \<open>None\<close> means that the given number of iterations did not finish it.
\<close>

fun check_parents :: "nat \<Rightarrow> 'a Track list \<Rightarrow> 'a Track \<Rightarrow> bool option" where
  "check_parents 0 tks t = None"
| "check_parents (Suc n) tks t =
     (if has_channel t then
        (case output_track t of
           None \<Rightarrow> Some False
         | Some oid \<Rightarrow>
             (case get_track tks oid of
                None \<Rightarrow> Some False
              | Some out_track \<Rightarrow>
                  if get_soloed out_track then Some True
                  else check_parents n tks out_track))
      else Some False)"

text \<open>
  The loop over the children stops at the first child that is soloed or implied soloed.
  \<open>first_true\<close> evaluates a list of pending results in order with that short cut.
\<close>

fun first_true :: "bool option list \<Rightarrow> bool option" where
  "first_true [] = Some False"
| "first_true (None # rs) = None"
| "first_true (Some True # rs) = Some True"
| "first_true (Some False # rs) = first_true rs"

text \<open>
  \<open>Fader::get_implied_soloed\<close>.  Modelled from the spec: \<open>Track::get_implied_soloed\<close>
  (gui/dsp/track.h is missing) of a child is the same query on the fader of the child's
  channel, and false for a track without a channel.  The first argument bounds both the
  parent loop and the depth of the recursion through the children.
\<close>

fun get_implied_soloed :: "nat \<Rightarrow> 'a Track list \<Rightarrow> Fader \<Rightarrow> bool option" where
  "get_implied_soloed 0 tks f = None"
| "get_implied_soloed (Suc n) tks f =
     (if (ftype f \<noteq> AudioChannel \<and> ftype f \<noteq> MidiChannel) \<or> passthrough f
         \<or> solo_toggled f
      then Some False
      else case track f of
        None \<Rightarrow> Some False
      | Some tid \<Rightarrow>
         (case get_track tks tid of
            None \<Rightarrow> Some False
          | Some t \<Rightarrow>
             (case check_parents (Suc n) tks t of
                None \<Rightarrow> None
              | Some True \<Rightarrow> Some True
              | Some False \<Rightarrow>
                  if can_be_group_target t then
                    first_true (map (\<lambda>child_id.
                      case get_track tks child_id of
                        None \<Rightarrow> Some False
                      | Some child_track \<Rightarrow>
                          if get_soloed child_track then Some True
                          else if has_channel child_track
                          then get_implied_soloed n tks (fader child_track)
                          else Some False)
                      (children t))
                  else Some False)))"

text \<open>
  A MIDI event of an active-event list: the three bytes of its \<open>raw_buffer_\<close>
  (status, note number, velocity) and its frame offset.
\<close>

record MidiEvent =
  status :: "8 word"
  data1 :: "8 word"
  velocity :: "8 word"
  time :: nat

text \<open>
  The globals the fader reads while processing a block: the tracklist, the master track
  \<open>P_MASTER_TRACK\<close>, the engine's bounce mode and denormal prevention value, and the
  control room's mute, dim and listen amplitudes and dim switch.  The two fade lengths
  (constants of gui/dsp/fader.h), the balance law \<open>dsp::calculate_balance_control\<close>
  with the linear algorithm, and \<open>midi_is_note_on\<close> are defined in files that are
  missing and are parameters here.
\<close>

record 'a Project =
  tracklist :: "'a Track list"
  master_track :: nat
  bounce_mode :: BounceMode
  denormal_prevention_val :: real
  mute_fader_amp :: real
  dim_fader_amp :: real
  listen_fader_amp :: real
  dim_output :: bool
  FADER_DEFAULT_FADE_FRAMES :: int
  FADER_DEFAULT_FADE_FRAMES_SHORT :: int
  calculate_balance_control :: "real \<Rightarrow> real \<times> real"
  midi_is_note_on :: "MidiEvent \<Rightarrow> bool"

text \<open>
  The computation of \<open>effectively_muted\<close> at the start of \<open>Fader::process_block\<close>.
  \<open>trk\<close> is the local variable \<open>track\<close>, which the function sets for audio channel
  faders only and leaves null otherwise.  The operands are evaluated from left to right
  with the short cuts of \<open>||\<close> and \<open>&&\<close>.
\<close>

definition effectively_muted :: "nat \<Rightarrow> 'a Project \<Rightarrow> Fader \<Rightarrow> nat option \<Rightarrow> bool option" where
  "effectively_muted fuel p f trk =
     (if passthrough f then Some False
      else if mute_toggled f then Some True
      else
        case (if (ftype f = AudioChannel \<or> ftype f = MidiChannel)
                 \<and> has_soloed (tracklist p) \<and> \<not> solo_toggled f
              then map_option (\<lambda>implied. \<not> implied \<and> trk \<noteq> Some (master_track p))
                     (get_implied_soloed fuel (tracklist p) f)
              else Some False) of
          None \<Rightarrow> None
        | Some True \<Rightarrow> Some True
        | Some False \<Rightarrow>
            Some (bounce_mode p = BOUNCE_ON
                  \<and> (ftype f = AudioChannel \<or> ftype f = MidiChannel)
                  \<and> (case trk of
                        None \<Rightarrow> False
                      | Some i \<Rightarrow>
                          (case get_track (tracklist p) i of
                             None \<Rightarrow> False
                           | Some t \<Rightarrow> \<not> is_master t \<and> \<not> bounce t))))"

text \<open>
  The local variable \<open>track\<close> of \<open>Fader::process_block\<close>: the fader's track for an
  audio channel fader, null for every other type.
\<close>

definition local_track :: "Fader \<Rightarrow> nat option" where
  "local_track f = (if ftype f = AudioChannel then track f else None)"

definition fade_frames_for_type :: "'a Project \<Rightarrow> FaderType \<Rightarrow> int" where
  "fade_frames_for_type p ty =
     (if ty = Monitor then FADER_DEFAULT_FADE_FRAMES p else FADER_DEFAULT_FADE_FRAMES_SHORT p)"

section \<open>Samples\<close>

text \<open>
  The audio buffers hold \<open>float\<close> samples.  The audio path is defined for every type
  of samples that has an addition, an order, the scaling \<open>k *\<^sub>R x\<close> by a control
  value (\<open>x * k\<close> in the source) and the constants of the source.  Two types of
  samples are used: the real numbers, which are the finite samples computed without
  rounding, and \<open>sample\<close>, which adds to the finite samples the two infinities and
  NaN of the float format, with the arithmetic and the comparisons that IEEE 754 gives
  them: NaN is the result of every operation on NaN, of \<open>inf - inf\<close> and of
  \<open>0 * inf\<close>, and every comparison with NaN is false.
\<close>

datatype sample = Finite real | PInf | MInf | NaN

instantiation sample :: "{zero, one, plus, uminus, ord, scaleR}"
begin

definition zero_sample :: sample where
  "zero_sample = Finite 0"

definition one_sample :: sample where
  "one_sample = Finite 1"

fun plus_sample :: "sample \<Rightarrow> sample \<Rightarrow> sample" where
  "plus_sample (Finite a) (Finite b) = Finite (a + b)"
| "plus_sample NaN y = NaN"
| "plus_sample x NaN = NaN"
| "plus_sample PInf MInf = NaN"
| "plus_sample MInf PInf = NaN"
| "plus_sample PInf y = PInf"
| "plus_sample x PInf = PInf"
| "plus_sample MInf y = MInf"
| "plus_sample x MInf = MInf"

fun uminus_sample :: "sample \<Rightarrow> sample" where
  "uminus_sample (Finite a) = Finite (- a)"
| "uminus_sample PInf = MInf"
| "uminus_sample MInf = PInf"
| "uminus_sample NaN = NaN"

fun scaleR_sample :: "real \<Rightarrow> sample \<Rightarrow> sample" where
  "scaleR_sample k (Finite a) = Finite (k * a)"
| "scaleR_sample k PInf = (if 0 < k then PInf else if k < 0 then MInf else NaN)"
| "scaleR_sample k MInf = (if 0 < k then MInf else if k < 0 then PInf else NaN)"
| "scaleR_sample k NaN = NaN"

fun less_sample :: "sample \<Rightarrow> sample \<Rightarrow> bool" where
  "less_sample (Finite a) (Finite b) = (a < b)"
| "less_sample NaN y = False"
| "less_sample x NaN = False"
| "less_sample x MInf = False"
| "less_sample PInf y = False"
| "less_sample MInf y = True"
| "less_sample x PInf = True"

fun less_eq_sample :: "sample \<Rightarrow> sample \<Rightarrow> bool" where
  "less_eq_sample (Finite a) (Finite b) = (a \<le> b)"
| "less_eq_sample NaN y = False"
| "less_eq_sample x NaN = False"
| "less_eq_sample MInf y = True"
| "less_eq_sample x PInf = True"
| "less_eq_sample x MInf = False"
| "less_eq_sample PInf y = False"

instance ..

end

instance sample :: semigroup_add
proof
  fix a b c :: sample
  show "a + b + c = a + (b + c)"
    by (cases a; cases b; cases c) simp_all
qed

instance sample :: numeral ..

text \<open>A control value as a sample.\<close>

definition of_control :: "real \<Rightarrow> 'a::{scaleR,one}" where
  "of_control v = v *\<^sub>R 1"

section \<open>Buffer operations (common/utils/dsp.h)\<close>

text \<open>
  Each operation of dsp.h works on \<open>size\<close> samples from a pointer.  The model gives the
  operation on those samples and \<open>at_offset\<close> puts the result back into the buffer:
  \<open>at_offset off size g buf\<close> is the call \<open>g (&buf[off], size)\<close>.  The definitions follow
  the branches without JUCE.
\<close>

definition at_offset :: "nat \<Rightarrow> nat \<Rightarrow> ('a list \<Rightarrow> 'a list) \<Rightarrow> 'a list \<Rightarrow> 'a list" where
  "at_offset off sz g buf = take off buf @ g (take sz (drop off buf)) @ drop (off + sz) buf"

definition std_clamp :: "'a::ord \<Rightarrow> 'a \<Rightarrow> 'a \<Rightarrow> 'a" where
  "std_clamp x lo hi = (if x < lo then lo else if hi < x then hi else x)"

definition dsp_fill :: "'a \<Rightarrow> 'a list \<Rightarrow> 'a list" where
  "dsp_fill val xs = map (\<lambda>x. val) xs"

definition dsp_clip :: "'a::ord \<Rightarrow> 'a \<Rightarrow> 'a list \<Rightarrow> 'a list" where
  "dsp_clip minf maxf xs = map (\<lambda>x. std_clamp x minf maxf) xs"

definition dsp_mul_k2 :: "real \<Rightarrow> 'a::scaleR list \<Rightarrow> 'a list" where
  "dsp_mul_k2 k xs = map (\<lambda>x. k *\<^sub>R x) xs"

definition dsp_mix_product :: "'a::{plus,scaleR} list \<Rightarrow> real \<Rightarrow> 'a list \<Rightarrow> 'a list" where
  "dsp_mix_product src k dest = map2 (\<lambda>x y. x + k *\<^sub>R y) dest src"

text \<open>
  Modelled from the spec: \<open>dsp_linear_fade_in_from\<close>, \<open>dsp_linear_fade_out_to\<close> and
  \<open>dsp_make_mono\<close> are declared in dsp.h and their bodies are missing.  The fade
  interpolates linearly from the given multiplier to 1.0 (in) or from 1.0 to the given
  multiplier (out) over \<open>total_frames_to_fade\<close> samples, the sample at position \<open>i\<close> of
  a fade-out to silence being scaled by \<open>1.0 - i/N\<close>; mono compatibility averages
  left and right into both channels.
\<close>

definition dsp_linear_fade_in_from :: "int \<Rightarrow> int \<Rightarrow> real \<Rightarrow> 'a::scaleR list \<Rightarrow> 'a list" where
  "dsp_linear_fade_in_from start_offset total_frames_to_fade fade_from_multiplier xs =
     map (\<lambda>(i, x). (fade_from_multiplier + (1 - fade_from_multiplier)
                        * (real_of_int (start_offset + int i) / real_of_int total_frames_to_fade))
                     *\<^sub>R x)
       (enumerate 0 xs)"

definition dsp_linear_fade_out_to :: "int \<Rightarrow> int \<Rightarrow> real \<Rightarrow> 'a::scaleR list \<Rightarrow> 'a list" where
  "dsp_linear_fade_out_to start_offset total_frames_to_fade fade_to_multiplier xs =
     map (\<lambda>(i, x). (fade_to_multiplier + (1 - fade_to_multiplier)
                        * (1 - real_of_int (start_offset + int i) / real_of_int total_frames_to_fade))
                     *\<^sub>R x)
       (enumerate 0 xs)"

definition dsp_make_mono :: "'a::{plus,scaleR} list \<Rightarrow> 'a list \<Rightarrow> 'a list" where
  "dsp_make_mono l r = map2 (\<lambda>x y. (1/2) *\<^sub>R (x + y)) l r"

section \<open>Fader::process_block (gui/dsp/fader.cpp)\<close>

text \<open>The port buffers of a fader: stereo in and out, MIDI in and out.\<close>

record 'a Ports =
  stereo_in_l :: "'a list"
  stereo_in_r :: "'a list"
  stereo_out_l :: "'a list"
  stereo_out_r :: "'a list"
  midi_in :: "MidiEvent list"
  midi_out :: "MidiEvent list"

text \<open>
  The ways in which \<open>process_block\<close> ends without processing the block: the
  \<open>z_return_if_fail\<close> on the track, the \<open>z_return_if_fail_cmp\<close> on the fade counters,
  a block that does not fit the buffers (undefined behaviour in the source), and a
  solo query that does not return.  What the source has written to the buffers and
  counters before such a return is not part of the result.
\<close>

datatype process_error = TrackIsNull | FadeFramesExceeded | BufferTooShort | NoResult

text \<open>
  Modelled from the spec: \<open>Fader::has_audio_ports\<close> (gui/dsp/fader.h is missing).  A
  fader has stereo ports or MIDI ports; the MIDI channel fader is the one with MIDI
  ports.
\<close>

definition has_audio_ports :: "Fader \<Rightarrow> bool" where
  "has_audio_ports f = (ftype f = AudioChannel \<or> ftype f = Monitor \<or> ftype f = SampleProcessor)"

text \<open>The monitor fader dims the signal and mixes in the listened tracks.\<close>

definition mix_listened :: "nat \<Rightarrow> nat \<Rightarrow> real \<Rightarrow> 'a::{plus,scaleR} Track \<Rightarrow> 'a list \<times> 'a list \<Rightarrow> 'a list \<times> 'a list" where
  "mix_listened off n listen_amp t out =
     (if has_channel t \<and> out_signal_audio t \<and> get_listened t
      then (at_offset off n (dsp_mix_product (take n (drop off (fader_out_l t))) listen_amp) (fst out),
            at_offset off n (dsp_mix_product (take n (drop off (fader_out_r t))) listen_amp) (snd out))
      else out)"

definition monitor_stage :: "'a::{plus,scaleR} Project \<Rightarrow> nat \<Rightarrow> nat \<Rightarrow> 'a list \<times> 'a list \<Rightarrow> 'a list \<times> 'a list" where
  "monitor_stage p off n out =
     (let dim_amp = dim_fader_amp p;
          out1 = (if has_listened (tracklist p)
                  then fold (mix_listened off n (listen_fader_amp p)) (tracklist p)
                         (at_offset off n (dsp_mul_k2 dim_amp) (fst out),
                          at_offset off n (dsp_mul_k2 dim_amp) (snd out))
                  else out)
      in if dim_output p
         then (at_offset off n (dsp_mul_k2 dim_amp) (fst out1),
               at_offset off n (dsp_mul_k2 dim_amp) (snd out1))
         else out1)"

text \<open>A channel or sample processor fader arms a fade when the mute state changed.\<close>

definition arm_fades :: "int \<Rightarrow> bool \<Rightarrow> Fader \<Rightarrow> Fader" where
  "arm_fades default_fade_frames em f =
     (if em \<and> \<not> was_effectively_muted f
      then f\<lparr>fade_out_samples := default_fade_frames, fading_out := True\<rparr>
      else if \<not> em \<and> was_effectively_muted f
      then f\<lparr>fading_out := False, fade_in_samples := default_fade_frames\<rparr>
      else f)"

text \<open>The fade-in: state, left and right buffer after it.\<close>

definition handle_fade_in ::
  "int \<Rightarrow> real \<Rightarrow> nat \<Rightarrow> nat \<Rightarrow> Fader \<times> 'a::scaleR list \<times> 'a list
     \<Rightarrow> process_error + Fader \<times> 'a list \<times> 'a list" where
  "handle_fade_in default_fade_frames mute_amp off n s =
     (case s of (f, l, r) \<Rightarrow>
        if fade_in_samples f > 0 then
          if \<not> default_fade_frames \<ge> fade_in_samples f then Inl FadeFramesExceeded
          else Inr (f\<lparr>fade_in_samples := max (fade_in_samples f - int n) 0\<rparr>,
                    at_offset off n (dsp_linear_fade_in_from
                       (default_fade_frames - fade_in_samples f) default_fade_frames mute_amp) l,
                    at_offset off n (dsp_linear_fade_in_from
                       (default_fade_frames - fade_in_samples f) default_fade_frames mute_amp) r)
        else Inr s)"

text \<open>
  The fade-out: state, buffers and \<open>faded_out_frames\<close> after it.  Once the counter is
  at zero the rest of the block is multiplied by \<open>mute_amp\<close>.
\<close>

definition handle_fade_out ::
  "int \<Rightarrow> real \<Rightarrow> nat \<Rightarrow> nat \<Rightarrow> Fader \<times> 'a::scaleR list \<times> 'a list
     \<Rightarrow> process_error + Fader \<times> 'a list \<times> 'a list \<times> nat" where
  "handle_fade_out default_fade_frames mute_amp off n s =
     (case s of (f, l, r) \<Rightarrow>
        if fading_out f then
          let fos = fade_out_samples f;
              samples_to_process = max 0 (min fos (int n))
          in if fos > 0 \<and> \<not> default_fade_frames \<ge> fos then Inl FadeFramesExceeded
             else
               let stp = nat samples_to_process;
                   (f1, l1, r1, faded1, fos1) =
                     (if fos > 0
                      then (f\<lparr>fade_out_samples := fos - samples_to_process\<rparr>,
                            at_offset off stp (dsp_linear_fade_out_to
                               (default_fade_frames - fos) default_fade_frames mute_amp) l,
                            at_offset off stp (dsp_linear_fade_out_to
                               (default_fade_frames - fos) default_fade_frames mute_amp) r,
                            stp, fos - samples_to_process)
                      else (f, l, r, 0, fos));
                   remaining_frames = n - stp
               in if fos1 = 0 \<and> remaining_frames > 0
                  then Inr (f1,
                            at_offset (off + faded1) remaining_frames (dsp_mul_k2 mute_amp) l1,
                            at_offset (off + faded1) remaining_frames (dsp_mul_k2 mute_amp) r1,
                            faded1 + remaining_frames)
                  else Inr (f1, l1, r1, faded1)
        else Inr (f, l, r, 0))"

text \<open>Pan and amplitude, mono compatibility and phase swap.\<close>

definition apply_fader_and_pan :: "'a::scaleR Project \<Rightarrow> Fader \<Rightarrow> nat \<Rightarrow> nat \<Rightarrow> 'a list \<times> 'a list \<Rightarrow> 'a list \<times> 'a list" where
  "apply_fader_and_pan p f off n out =
     (case calculate_balance_control p (balance f) of (calc_l, calc_r) \<Rightarrow>
        (at_offset off n (dsp_mul_k2 (amp f * calc_l)) (fst out),
         at_offset off n (dsp_mul_k2 (amp f * calc_r)) (snd out)))"

definition make_mono_stage :: "Fader \<Rightarrow> nat \<Rightarrow> nat \<Rightarrow> 'a::{plus,scaleR} list \<times> 'a list \<Rightarrow> 'a list \<times> 'a list" where
  "make_mono_stage f off n out =
     (if mono_compat_enabled f
      then (at_offset off n (\<lambda>l. dsp_make_mono l (take n (drop off (snd out)))) (fst out),
            at_offset off n (\<lambda>r. dsp_make_mono (take n (drop off (fst out))) r) (snd out))
      else out)"

definition swap_phase_stage :: "Fader \<Rightarrow> nat \<Rightarrow> nat \<Rightarrow> 'a::scaleR list \<times> 'a list \<Rightarrow> 'a list \<times> 'a list" where
  "swap_phase_stage f off n out =
     (if swap_phase f
      then (at_offset off n (dsp_mul_k2 (- 1)) (fst out), at_offset off n (dsp_mul_k2 (- 1)) (snd out))
      else out)"

text \<open>
  The mute level for the frames after the fade-out.  In the branch for a mute amplitude
  of at least 0.00001 the source scales the left channel from \<open>local_offset\<close> and the
  right channel from \<open>local_offset + faded_out_frames\<close>.
\<close>

definition apply_mute_level ::
  "'a::{scaleR,one} Project \<Rightarrow> bool \<Rightarrow> real \<Rightarrow> Fader \<Rightarrow> nat \<Rightarrow> nat \<Rightarrow> nat \<Rightarrow> 'a list \<times> 'a list \<Rightarrow> 'a list \<times> 'a list" where
  "apply_mute_level p em mute_amp f off n faded_out_frames out =
     (if em \<and> fade_out_samples f = 0 \<and> n - faded_out_frames > 0
      then if mute_amp < 1 / 100000
           then (at_offset (off + faded_out_frames) (n - faded_out_frames)
                   (dsp_fill (of_control (denormal_prevention_val p))) (fst out),
                 at_offset (off + faded_out_frames) (n - faded_out_frames)
                   (dsp_fill (of_control (denormal_prevention_val p))) (snd out))
           else (at_offset off (n - faded_out_frames) (dsp_mul_k2 mute_amp) (fst out),
                 at_offset (off + faded_out_frames) (n - faded_out_frames)
                   (dsp_mul_k2 mute_amp) (snd out))
      else out)"

text \<open>The hard limit of the master, monitor and sample processor faders.\<close>

definition hard_limits :: "'a Project \<Rightarrow> Fader \<Rightarrow> bool" where
  "hard_limits p f =
     ((ftype f = AudioChannel
       \<and> (case local_track f of
             None \<Rightarrow> False
           | Some i \<Rightarrow> (case get_track (tracklist p) i of None \<Rightarrow> False | Some t \<Rightarrow> is_master t)))
      \<or> ftype f = Monitor \<or> ftype f = SampleProcessor)"

definition hard_limit_stage :: "'a::{ord,uminus,numeral} Project \<Rightarrow> Fader \<Rightarrow> nat \<Rightarrow> nat \<Rightarrow> 'a list \<times> 'a list \<Rightarrow> 'a list \<times> 'a list" where
  "hard_limit_stage p f off n out =
     (if hard_limits p f
      then (at_offset off n (dsp_clip (- 2) 2) (fst out), at_offset off n (dsp_clip (- 2) 2) (snd out))
      else out)"

text \<open>
  Modelled from the spec: the event list's \<open>append\<close> with a range, and the helpers
  \<open>midi_get_velocity\<close> and \<open>set_velocity\<close> (all missing).  Events are standard
  three-byte channel messages with a frame offset; \<open>append\<close> adds the events of the
  source whose offset lies in the block, and the velocity is the third byte.
\<close>

definition append_events :: "MidiEvent list \<Rightarrow> nat \<Rightarrow> nat \<Rightarrow> MidiEvent list \<Rightarrow> MidiEvent list" where
  "append_events src local_offset nframes dest =
     dest @ filter (\<lambda>ev. local_offset \<le> time ev \<and> time ev < local_offset + nframes) src"

text \<open>
  The product of two floats is the exact product rounded to the nearest value of the
  binary32 format, ties to the even significand.  The values of the format are the
  multiples of the quantum of their binade: \<open>2 ^ (e - 23)\<close> for
  \<open>2 ^ e \<le> |x| < 2 ^ (e + 1)\<close>, and \<open>2 ^ (- 149)\<close> below the normal range.  The
  largest exponent of the format is 127; the rounding to an infinity above it is not
  part of \<open>f32_round\<close>.
\<close>

definition round_half_even :: "real \<Rightarrow> int" where
  "round_half_even y =
     (let f = \<lfloor>y\<rfloor>; d = y - of_int f
      in if d < 1/2 then f else if 1/2 < d then f + 1 else if even f then f else f + 1)"

definition f32_quantum_exp :: "real \<Rightarrow> int" where
  "f32_quantum_exp x =
     (case List.find (\<lambda>k. 2 powi (k + 23) \<le> \<bar>x\<bar>) (rev [- 148 .. 104]) of
        None \<Rightarrow> - 149
      | Some k \<Rightarrow> k)"

definition f32_round :: "real \<Rightarrow> real" where
  "f32_round x =
     of_int (round_half_even (x / 2 powi f32_quantum_exp x)) * 2 powi f32_quantum_exp x"

text \<open>
  The conversion \<open>(midi_byte_t) x\<close> of a float: truncation towards zero.  A value
  outside 0..255 is undefined behaviour in the source; the model wraps it to eight bits.
  The new velocity is the float product of the velocity, converted to float, and the
  amplitude, converted back.
\<close>

definition float_to_midi_byte :: "real \<Rightarrow> 8 word" where
  "float_to_midi_byte x = word_of_int (if x \<ge> 0 then \<lfloor>x\<rfloor> else \<lceil>x\<rceil>)"

definition scale_velocity :: "real \<Rightarrow> MidiEvent \<Rightarrow> MidiEvent" where
  "scale_velocity amp_val ev =
     (let prev_vel = velocity ev;
          new_vel = float_to_midi_byte (f32_round (real (unat prev_vel) * amp_val))
      in ev\<lparr>velocity := min new_vel 127\<rparr>)"

definition apply_midi_volume :: "'a Project \<Rightarrow> Fader \<Rightarrow> MidiEvent list \<Rightarrow> MidiEvent list" where
  "apply_midi_volume p f evs =
     map (\<lambda>ev. if midi_mode f = MIDI_FADER_MODE_VEL_MULTIPLIER \<and> midi_is_note_on p ev
               then scale_velocity (amp f) ev else ev) evs"

text \<open>The block must lie inside every buffer the call touches.\<close>

definition buffers_fit :: "'a Project \<Rightarrow> Fader \<Rightarrow> nat \<Rightarrow> nat \<Rightarrow> 'a Ports \<Rightarrow> bool" where
  "buffers_fit p f off n ports =
     (off + n \<le> length (stereo_in_l ports) \<and> off + n \<le> length (stereo_in_r ports)
      \<and> off + n \<le> length (stereo_out_l ports) \<and> off + n \<le> length (stereo_out_r ports)
      \<and> (ftype f = Monitor \<and> \<not> passthrough f \<and> has_listened (tracklist p) \<longrightarrow>
            list_all (\<lambda>t. has_channel t \<and> out_signal_audio t \<and> get_listened t \<longrightarrow>
                          off + n \<le> length (fader_out_l t) \<and> off + n \<le> length (fader_out_r t))
              (tracklist p)))"

text \<open>The part of \<open>process_block\<close> after the copy, for a fader that is not a pre-fader.\<close>

definition process_audio ::
  "'a::{scaleR,ord,uminus,numeral} Project \<Rightarrow> Fader \<Rightarrow> bool \<Rightarrow> nat \<Rightarrow> nat \<Rightarrow> 'a list \<times> 'a list
     \<Rightarrow> process_error + Fader \<times> 'a list \<times> 'a list" where
  "process_audio p f em off n out =
     (let default_fade_frames = fade_frames_for_type p (ftype f);
          mute_amp = (if ftype f = Monitor then denormal_prevention_val p else mute_fader_amp p);
          out1 = (if ftype f = Monitor then monitor_stage p off n out else out);
          f1 = (if ftype f = Monitor then f else arm_fades default_fade_frames em f)
      in case handle_fade_in default_fade_frames mute_amp off n (f1, fst out1, snd out1) of
           Inl e \<Rightarrow> Inl e
         | Inr s2 \<Rightarrow>
             (case handle_fade_out default_fade_frames mute_amp off n s2 of
                Inl e \<Rightarrow> Inl e
              | Inr (f3, l3, r3, faded_out_frames) \<Rightarrow>
                  let out4 = apply_fader_and_pan p f3 off n (l3, r3);
                      out5 = make_mono_stage f3 off n out4;
                      out6 = swap_phase_stage f3 off n out5;
                      out7 = apply_mute_level p em mute_amp f3 off n faded_out_frames out6;
                      out8 = hard_limit_stage p f3 off n out7
                  in Inr (f3, fst out8, snd out8)))"

text \<open>
  \<open>Fader::process_block\<close> for the block of \<open>nframes\<close> samples at \<open>local_offset\<close>.
  The result is the fader and its ports after the call.
\<close>

definition process_block ::
  "nat \<Rightarrow> 'a::{scaleR,ord,uminus,numeral} Project \<Rightarrow> Fader \<Rightarrow> nat \<Rightarrow> nat \<Rightarrow> 'a Ports
     \<Rightarrow> process_error + Fader \<times> 'a Ports" where
  "process_block fuel p f local_offset nframes ports =
     (if ftype f = AudioChannel
         \<and> (case track f of None \<Rightarrow> True | Some i \<Rightarrow> get_track (tracklist p) i = None)
      then Inl TrackIsNull
      else case effectively_muted fuel p f (local_track f) of
        None \<Rightarrow> Inl NoResult
      | Some em \<Rightarrow>
          if has_audio_ports f then
            if \<not> buffers_fit p f local_offset nframes ports then Inl BufferTooShort
            else
              let out0 = (at_offset local_offset nframes
                            (\<lambda>d. take nframes (drop local_offset (stereo_in_l ports)))
                            (stereo_out_l ports),
                          at_offset local_offset nframes
                            (\<lambda>d. take nframes (drop local_offset (stereo_in_r ports)))
                            (stereo_out_r ports))
              in if passthrough f
                 then Inr (f\<lparr>was_effectively_muted := em\<rparr>,
                           ports\<lparr>stereo_out_l := fst out0, stereo_out_r := snd out0\<rparr>)
                 else
                   (case process_audio p f em local_offset nframes out0 of
                      Inl e \<Rightarrow> Inl e
                    | Inr (f', l, r) \<Rightarrow>
                        Inr (f'\<lparr>was_effectively_muted := em\<rparr>,
                             ports\<lparr>stereo_out_l := l, stereo_out_r := r\<rparr>))
          else if ftype f = MidiChannel then
            if \<not> em
            then Inr (f\<lparr>was_effectively_muted := em\<rparr>,
                      ports\<lparr>midi_out :=
                        (if \<not> passthrough f
                         then apply_midi_volume p f
                                (append_events (midi_in ports) local_offset nframes (midi_out ports))
                         else append_events (midi_in ports) local_offset nframes (midi_out ports))\<rparr>)
            else Inr (f\<lparr>was_effectively_muted := em\<rparr>, ports)
          else Inr (f\<lparr>was_effectively_muted := em\<rparr>, ports))"

section \<open>Notions of the specification and concrete projects\<close>



text \<open>
  The formula the specification gives for \<open>effectively_muted\<close>:
  \<open>mute OR (others_soloed AND !this.soloed AND !this.implied_soloed) OR
  (bouncing AND !this.bounce AND !master)\<close>, the solo clause for audio and MIDI channel
  faders.
\<close>

definition spec_effectively_muted :: "'a Project \<Rightarrow> Fader \<Rightarrow> bool \<Rightarrow> bool" where
  "spec_effectively_muted p f implied =
     (mute_toggled f
      \<or> ((ftype f = AudioChannel \<or> ftype f = MidiChannel) \<and> has_soloed (tracklist p)
          \<and> \<not> solo_toggled f \<and> \<not> implied)
      \<or> (bounce_mode p = BOUNCE_ON
          \<and> (case track f of
                None \<Rightarrow> False
              | Some i \<Rightarrow>
                  (case get_track (tracklist p) i of
                     None \<Rightarrow> False
                   | Some t \<Rightarrow> \<not> bounce t \<and> \<not> is_master t))))"

text \<open>A fader with default controls, a track with an audio channel, and a project.\<close>

definition example_fader :: "FaderType \<Rightarrow> nat option \<Rightarrow> bool \<Rightarrow> Fader" where
  "example_fader ty tr solo =
     \<lparr> ftype = ty, passthrough = False, track = tr, mute_toggled = False,
       solo_toggled = solo, listen_toggled = False, amp = 1, balance = 1/2,
       mono_compat_enabled = False, swap_phase = False,
       midi_mode = MIDI_FADER_MODE_VEL_MULTIPLIER, fade_in_samples = 0,
       fade_out_samples = 0, fading_out = False, was_effectively_muted = False \<rparr>"

definition example_track :: "nat \<Rightarrow> nat option \<Rightarrow> nat list \<Rightarrow> bool \<Rightarrow> bool \<Rightarrow> 'a Track" where
  "example_track i out chs master solo =
     \<lparr> has_channel = True, output_track = out, can_be_group_target = (chs \<noteq> [] \<or> master),
       children = chs, is_master = master, bounce = False, out_signal_audio = True,
       fader = example_fader AudioChannel (Some i) solo, fader_out_l = [], fader_out_r = [] \<rparr>"

definition example_project :: "'a Track list \<Rightarrow> BounceMode \<Rightarrow> 'a Project" where
  "example_project tks bm =
     \<lparr> tracklist = tks, master_track = 0, bounce_mode = bm, denormal_prevention_val = 0,
       mute_fader_amp = 0, dim_fader_amp = 1/10, listen_fader_amp = 1, dim_output = False,
       FADER_DEFAULT_FADE_FRAMES = 8, FADER_DEFAULT_FADE_FRAMES_SHORT = 4,
       calculate_balance_control = (\<lambda>pan. (1, 1)),
       midi_is_note_on = (\<lambda>ev. take_bit 4 (drop_bit 4 (status ev)) = 9) \<rparr>"

text \<open>
  A group track 0 with the children 1 and 2; track 2 is soloed and is itself a group with
  the children 3 (soloed) and 4 (not soloed).
\<close>

definition group_tracks :: "real Track list" where
  "group_tracks =
     [example_track 0 None [1, 2] False False,
      example_track 1 (Some 0) [] False False,
      example_track 2 (Some 0) [3, 4] False True,
      example_track 3 (Some 2) [] False True,
      example_track 4 (Some 2) [] False False]"

text \<open>The master track 0 and a soloed track 1 that is routed nowhere.\<close>

definition master_and_unrouted :: "real Track list" where
  "master_and_unrouted =
     [example_track 0 None [] True False,
      example_track 1 None [] False True]"



text \<open>
  Two tracks routed to each other, and the depth and height of the tracks of
  \<open>group_tracks\<close> in their routing forest.
\<close>

definition cyclic_tracks :: "real Track list" where
  "cyclic_tracks =
     [example_track 0 (Some 1) [] False False,
      example_track 1 (Some 0) [] False False]"



text \<open>
  The gain of a fade-out of \<open>N\<close> samples at its sample \<open>i\<close>, from 1.0 towards
  \<open>mute_amp\<close>, and the hard limit where the fader has one.
\<close>

definition fade_out_gain :: "real \<Rightarrow> int \<Rightarrow> nat \<Rightarrow> real" where
  "fade_out_gain mute_amp N i = mute_amp + (1 - mute_amp) * (1 - real i / real_of_int N)"

definition limited :: "real Project \<Rightarrow> Fader \<Rightarrow> real \<Rightarrow> real" where
  "limited p f x = (if hard_limits p f then std_clamp x (- 2) 2 else x)"

text \<open>Both buffers contain the block; two pairs of buffers have the same lengths.\<close>

definition same_lengths :: "'a list \<times> 'a list \<Rightarrow> 'a list \<times> 'a list \<Rightarrow> bool" where
  "same_lengths a b = (length (fst a) = length (fst b) \<and> length (snd a) = length (snd b))"

definition fits :: "nat \<Rightarrow> nat \<Rightarrow> 'a list \<times> 'a list \<Rightarrow> bool" where
  "fits off n out = (off + n \<le> length (fst out) \<and> off + n \<le> length (snd out))"

text \<open>
  The pre-fader of the master track, a block of two samples, a muted monitor fader and
  two muted audio channel faders on track 1, one at half amplitude.
\<close>

definition master_prefader :: Fader where
  "master_prefader = (example_fader AudioChannel (Some 0) False)\<lparr>passthrough := True\<rparr>"

definition loud_ports :: "real Ports" where
  "loud_ports = \<lparr> stereo_in_l = [3, 1], stereo_in_r = [3, 1], stereo_out_l = [0, 0],
                  stereo_out_r = [0, 0], midi_in = [], midi_out = [] \<rparr>"

text \<open>
  The master track alone, over samples that may be infinite or NaN, and a block whose
  left input holds a NaN and whose right input an infinity.
\<close>

definition master_alone :: "sample Track list" where
  "master_alone = [example_track 0 None [] True False]"

definition nan_ports :: "sample Ports" where
  "nan_ports = \<lparr> stereo_in_l = [NaN, Finite 3], stereo_in_r = [PInf, Finite (- 5/2)],
                 stereo_out_l = [0, 0], stereo_out_r = [0, 0], midi_in = [], midi_out = [] \<rparr>"

definition muted_monitor :: Fader where
  "muted_monitor = (example_fader Monitor None False)\<lparr>mute_toggled := True\<rparr>"

definition muted_half :: Fader where
  "muted_half = (example_fader AudioChannel (Some 1) False)\<lparr>mute_toggled := True, amp := 1/2\<rparr>"

definition muted_unity :: Fader where
  "muted_unity = (example_fader AudioChannel (Some 1) False)\<lparr>mute_toggled := True\<rparr>"




section \<open>Channel::connect_plugins (gui/backend/channel.cpp)\<close>

text \<open>
  The plugin strip of a channel: the MIDI FX slots, the instrument and the insert slots,
  each slot empty or holding a plugin id.  \<open>STRIP_SIZE\<close> is 9.
\<close>

definition STRIP_SIZE :: nat where
  "STRIP_SIZE = 9"

datatype PluginSlotType = MidiFx | Instrument | Insert

record Channel =
  midi_fx :: "nat option list"
  instrument :: "nat option"
  inserts :: "nat option list"

text \<open>
  The calls that wire ports, in the order in which they are made.  The bodies of the
  called functions are in files that are missing; each call is recorded with its
  receiver and argument.
\<close>

datatype wiring_call =
    processor_disconnect_from_prefader
  | processor_connect_to_prefader
  | processor_connect_to_plugin nat
  | processor_disconnect_from_plugin nat
  | plugin_connect_to_prefader nat
  | plugin_disconnect_from_prefader nat
  | plugin_connect_to_plugin nat nat
  | plugin_disconnect_from_plugin nat nat

definition connect_no_prev_no_next :: "nat \<Rightarrow> wiring_call list" where
  "connect_no_prev_no_next pl =
     [processor_disconnect_from_prefader, processor_connect_to_plugin pl,
      plugin_connect_to_prefader pl]"

definition connect_no_prev_next :: "nat \<Rightarrow> nat \<Rightarrow> wiring_call list" where
  "connect_no_prev_next pl next_pl =
     [processor_disconnect_from_plugin next_pl, processor_connect_to_plugin pl,
      plugin_connect_to_plugin pl next_pl]"

definition connect_prev_no_next :: "nat \<Rightarrow> nat \<Rightarrow> wiring_call list" where
  "connect_prev_no_next prev_pl pl =
     [plugin_disconnect_from_prefader prev_pl, plugin_connect_to_plugin prev_pl pl,
      plugin_connect_to_prefader pl]"

definition connect_prev_next :: "nat \<Rightarrow> nat \<Rightarrow> nat \<Rightarrow> wiring_call list" where
  "connect_prev_next prev_pl pl next_pl =
     [plugin_disconnect_from_plugin prev_pl next_pl, plugin_connect_to_plugin prev_pl pl,
      plugin_connect_to_plugin pl next_pl]"

text \<open>
  The search loops assign each visited slot to the result and stop at the first one
  that holds a plugin, so their result is the first plugin of the visited slots, if any.
\<close>

fun first_plugin :: "nat option list \<Rightarrow> nat option" where
  "first_plugin [] = None"
| "first_plugin (Some pl # slots) = Some pl"
| "first_plugin (None # slots) = first_plugin slots"

definition prev_plugins :: "Channel \<Rightarrow> PluginSlotType \<Rightarrow> nat option list" where
  "prev_plugins ch slot_type = (case slot_type of Insert \<Rightarrow> inserts ch | _ \<Rightarrow> midi_fx ch)"

definition next_plugins :: "Channel \<Rightarrow> PluginSlotType \<Rightarrow> nat option list" where
  "next_plugins ch slot_type = (case slot_type of Insert \<Rightarrow> inserts ch | _ \<Rightarrow> midi_fx ch)"

definition next_pl_id :: "Channel \<Rightarrow> PluginSlotType \<Rightarrow> nat \<Rightarrow> nat option" where
  "next_pl_id ch slot_type slot =
     (let found = first_plugin (take (STRIP_SIZE - (if slot_type = Instrument then 0 else slot + 1))
                     (drop (if slot_type = Instrument then 0 else slot + 1)
                        (next_plugins ch slot_type)))
      in if found = None \<and> slot_type = MidiFx
         then (if instrument ch \<noteq> None then instrument ch else first_plugin (inserts ch))
         else found)"

definition prev_pl_id :: "Channel \<Rightarrow> PluginSlotType \<Rightarrow> nat \<Rightarrow> nat option" where
  "prev_pl_id ch slot_type slot =
     (let found = (if slot_type = Instrument
                   then first_plugin (rev (prev_plugins ch slot_type))
                   else first_plugin (rev (take slot (prev_plugins ch slot_type))))
      in if found = None \<and> slot_type = Insert
         then (if instrument ch \<noteq> None then instrument ch else first_plugin (rev (midi_fx ch)))
         else found)"

text \<open>The body of the inner loop for the plugin \<open>pl\<close> found in a slot.\<close>

definition connect_plugin :: "Channel \<Rightarrow> PluginSlotType \<Rightarrow> nat \<Rightarrow> nat \<Rightarrow> wiring_call list" where
  "connect_plugin ch slot_type slot pl =
     (case (prev_pl_id ch slot_type slot, next_pl_id ch slot_type slot) of
        (None, None) \<Rightarrow> connect_no_prev_no_next pl
      | (None, Some next_pl) \<Rightarrow> connect_no_prev_next pl next_pl
      | (Some prev_pl, None) \<Rightarrow> connect_prev_no_next prev_pl pl
      | (Some prev_pl, Some next_pl) \<Rightarrow> connect_prev_next prev_pl pl next_pl)"

definition slot_plugin :: "Channel \<Rightarrow> PluginSlotType \<Rightarrow> nat \<Rightarrow> nat option" where
  "slot_plugin ch slot_type j =
     (case slot_type of
        MidiFx \<Rightarrow> midi_fx ch ! j
      | Instrument \<Rightarrow> instrument ch
      | Insert \<Rightarrow> inserts ch ! j)"

text \<open>
  \<open>connect_plugins\<close>: the two nested loops over the slot types and the slots; the
  instrument is visited once for each of the \<open>STRIP_SIZE\<close> values of the inner
  counter.  The result is the sequence of wiring calls.  Without a project, or where the
  size check on \<open>next_plugins\<close> fails, the function returns.  The strip arrays of the
  source have \<open>STRIP_SIZE\<close> slots by their type.  The lookups of plugins by id and the
  calls of \<open>instantiate\<close> wire nothing; the model is of the runs in which they
  return.
\<close>

fun connect_slots :: "Channel \<Rightarrow> (PluginSlotType \<times> nat) list \<Rightarrow> wiring_call list" where
  "connect_slots ch [] = []"
| "connect_slots ch ((slot_type, j) # rest) =
     (case slot_plugin ch slot_type j of
        None \<Rightarrow> connect_slots ch rest
      | Some pl \<Rightarrow>
          if length (next_plugins ch slot_type) \<noteq> STRIP_SIZE then []
          else connect_plugin ch slot_type j pl @ connect_slots ch rest)"

definition connect_plugins :: "bool \<Rightarrow> Channel \<Rightarrow> wiring_call list" where
  "connect_plugins has_project ch =
     (if \<not> has_project then []
      else connect_slots ch
             (concat (map (\<lambda>slot_type. map (\<lambda>j. (slot_type, j)) [0 ..< STRIP_SIZE])
                [MidiFx, Instrument, Insert])))"

text \<open>
  The connections a sequence of wiring calls makes, as pairs of a source and a
  destination node.
\<close>

datatype strip_node = TrackProcessor | Prefader | Plugin nat

fun connections_made :: "wiring_call list \<Rightarrow> (strip_node \<times> strip_node) list" where
  "connections_made [] = []"
| "connections_made (processor_connect_to_prefader # cs) =
     (TrackProcessor, Prefader) # connections_made cs"
| "connections_made (processor_connect_to_plugin pl # cs) =
     (TrackProcessor, Plugin pl) # connections_made cs"
| "connections_made (plugin_connect_to_prefader pl # cs) =
     (Plugin pl, Prefader) # connections_made cs"
| "connections_made (plugin_connect_to_plugin a b # cs) =
     (Plugin a, Plugin b) # connections_made cs"
| "connections_made (c # cs) = connections_made cs"

text \<open>
  A strip with one MIDI FX plugin (10, in slot 0), the instrument 20 and no inserts.
\<close>

definition fx_and_instrument :: Channel where
  "fx_and_instrument =
     \<lparr> midi_fx = [Some 10, None, None, None, None, None, None, None, None],
       instrument = Some 20,
       inserts = [None, None, None, None, None, None, None, None, None] \<rparr>"

section \<open>AutomationTrack::get_val_at_pos (gui/dsp/automation_track.cpp)\<close>



















section \<open>Lemmas\<close>

lemmas region_inv_defs = region_invariants_def inv_length_def inv_loop_def inv_clip_start_def
  inv_fade_order_def inv_fade_bounds_def

lemmas example_defs = example_fader_def example_track_def example_project_def get_track_def
  get_soloed_def has_soloed_def local_track_def





lemma get_implied_soloed_channel:
  assumes "ftype f = AudioChannel \<or> ftype f = MidiChannel"
    and "\<not> passthrough f" and "\<not> solo_toggled f"
    and "track f = Some tid" and "get_track tks tid = Some t"
  shows "get_implied_soloed (Suc n) tks f =
     (case check_parents (Suc n) tks t of
        None \<Rightarrow> None
      | Some True \<Rightarrow> Some True
      | Some False \<Rightarrow>
          if can_be_group_target t then
            first_true (map (\<lambda>child_id.
              case get_track tks child_id of
                None \<Rightarrow> Some False
              | Some child_track \<Rightarrow>
                  if get_soloed child_track then Some True
                  else if has_channel child_track
                  then get_implied_soloed n tks (fader child_track)
                  else Some False)
              (children t))
          else Some False)"
  using assms by (auto simp del: check_parents.simps)





lemma cyclic_routing_no_result:
  "get_implied_soloed n cyclic_tracks (fader (cyclic_tracks ! 0)) = None"
proof -
  have cp: "check_parents k cyclic_tracks (cyclic_tracks ! 0) = None
            \<and> check_parents k cyclic_tracks (cyclic_tracks ! 1) = None" for k
    by (induction k) (simp_all add: cyclic_tracks_def example_defs)
  show ?thesis
  proof (cases n)
    case 0
    then show ?thesis by simp
  next
    case (Suc m)
    have h: "ftype (fader (cyclic_tracks ! 0)) = AudioChannel \<or> ftype (fader (cyclic_tracks ! 0)) = MidiChannel"
      "\<not> passthrough (fader (cyclic_tracks ! 0))" "\<not> solo_toggled (fader (cyclic_tracks ! 0))"
      "track (fader (cyclic_tracks ! 0)) = Some 0" "get_track cyclic_tracks 0 = Some (cyclic_tracks ! 0)"
      by (simp_all add: cyclic_tracks_def example_defs)
    from get_implied_soloed_channel[OF h, of m] cp[of "Suc m"] Suc show ?thesis
      by (simp del: check_parents.simps get_implied_soloed.simps)
  qed
qed


section \<open>Regions keep their boundaries under the validated setter\<close>

text \<open>
  Claim C9, as the specification states it, fails: the validated setter accepts a new
  start of an audio region that leaves the fade-out position beyond the new length (the
  check compares the fade-out moved along with the start, and the setter stores the start
  only), and it accepts a loop end equal to the clip start.
\<close>

theorem set_position_breaks_invariants:
  "region_invariants audio_region_10
   \<and> set_position audio_region_10 5 Start True = (True, audio_region_10\<lparr>pos := 5\<rparr>)
   \<and> \<not> region_invariants (audio_region_10\<lparr>pos := 5\<rparr>)
   \<and> region_invariants midi_region_clip5
   \<and> set_position midi_region_clip5 5 LoopEnd True = (True, midi_region_clip5\<lparr>loop_end_pos := 5\<rparr>)
   \<and> \<not> region_invariants (midi_region_clip5\<lparr>loop_end_pos := 5\<rparr>)"
  by (simp add: set_position_def region_inv_defs can_fade_def region_type_can_fade_def
      audio_region_10_def midi_region_clip5_def)

text \<open>
  Claim C9, amended: on a region that satisfies the boundary invariants, the validated
  setter returns false exactly when \<open>is_position_valid\<close> rejects the position and then
  leaves the region unchanged; an accepted position keeps \<open>end > start\<close>,
  \<open>0 \<le> loop_start < loop_end\<close>, \<open>0 \<le> clip_start \<le> loop_end\<close> and
  \<open>fade_in < fade_out\<close>; \<open>clip_start < loop_end\<close> is kept by every setter but the one
  of the loop end, and the fades stay inside \<open>[0, end - start]\<close> under every setter but
  those of the start and the end.
\<close>

theorem set_position_validated:
  assumes "region_invariants r" and "set_position r p t True = (ok, r')"
  shows "ok = is_position_valid r p t
     \<and> (\<not> ok \<longrightarrow> r' = r)
     \<and> (ok \<longrightarrow> inv_length r' \<and> inv_loop r' \<and> inv_fade_order r'
            \<and> 0 \<le> clip_start_pos r' \<and> clip_start_pos r' \<le> loop_end_pos r'
            \<and> (t \<noteq> LoopEnd \<longrightarrow> inv_clip_start r')
            \<and> (t \<noteq> Start \<and> t \<noteq> End \<longrightarrow> inv_fade_bounds r'))"
  using assms
  by (cases t)
     (auto simp: set_position_def region_inv_defs can_fade_def split: if_splits option.splits)

theorem set_position_validated_witness:
  "region_invariants audio_region_10
   \<and> set_position audio_region_10 4 FadeIn True = (True, audio_region_10\<lparr>fade_in_pos := 4\<rparr>)
   \<and> is_position_valid audio_region_10 4 FadeIn
   \<and> inv_fade_bounds (audio_region_10\<lparr>fade_in_pos := 4\<rparr>)
   \<and> inv_clip_start (audio_region_10\<lparr>fade_in_pos := 4\<rparr>)"
proof -
  have inv: "region_invariants audio_region_10"
    by (simp add: region_inv_defs can_fade_def region_type_can_fade_def audio_region_10_def)
  have set: "set_position audio_region_10 4 FadeIn True = (True, audio_region_10\<lparr>fade_in_pos := 4\<rparr>)"
    by (simp add: set_position_def can_fade_def region_type_can_fade_def audio_region_10_def)
  from set_position_validated[OF inv set] inv set show ?thesis
    by (simp add: can_fade_def region_type_can_fade_def audio_region_10_def)
qed

section \<open>Implied solo\<close>





section \<open>Effective mute\<close>

text \<open>
  Claim C1, as the specification states it, fails: the audio channel fader of the master
  track is not muted by the solo clause.  With track 1 soloed and routed nowhere, the
  master fader is neither soloed nor implied soloed, the formula of the specification
  gives true, and \<open>process_block\<close> computes false.
\<close>

theorem master_not_muted_by_solo:
  "effectively_muted 2 (example_project master_and_unrouted BOUNCE_OFF)
      (fader (master_and_unrouted ! 0)) (local_track (fader (master_and_unrouted ! 0))) = Some False
   \<and> get_implied_soloed 2 master_and_unrouted (fader (master_and_unrouted ! 0)) = Some False
   \<and> spec_effectively_muted (example_project master_and_unrouted BOUNCE_OFF)
        (fader (master_and_unrouted ! 0)) False"
  by (simp add: effectively_muted_def spec_effectively_muted_def master_and_unrouted_def
      example_defs numeral_2_eq_2)

text \<open>
  Claim C1, amended: for a fader that is not a pre-fader and whose implied-solo query
  returns, \<open>effectively_muted\<close> is: mute on, or (audio or MIDI channel fader, some track
  soloed, this fader neither soloed nor implied soloed, and its track not the master
  track), or (bounce mode, audio channel fader, its track neither the master track nor
  marked for bounce).  MIDI channel faders in bounce mode are left out of the statement.
\<close>

theorem effectively_muted_formula:
  assumes "\<not> passthrough f"
    and "get_implied_soloed fuel (tracklist p) f = Some implied"
    and "ftype f = MidiChannel \<longrightarrow> bounce_mode p \<noteq> BOUNCE_ON"
  shows "effectively_muted fuel p f (local_track f) =
     Some (mute_toggled f
           \<or> ((ftype f = AudioChannel \<or> ftype f = MidiChannel) \<and> has_soloed (tracklist p)
               \<and> \<not> solo_toggled f \<and> \<not> implied \<and> local_track f \<noteq> Some (master_track p))
           \<or> (bounce_mode p = BOUNCE_ON \<and> ftype f = AudioChannel
               \<and> (\<exists>i t. track f = Some i \<and> get_track (tracklist p) i = Some t
                         \<and> \<not> is_master t \<and> \<not> bounce t)))"
  using assms
  by (auto simp: effectively_muted_def local_track_def split: option.splits bool.splits)

theorem effectively_muted_formula_witness:
  "\<not> passthrough (fader (group_tracks ! 1))
   \<and> get_implied_soloed 3 (tracklist (example_project group_tracks BOUNCE_ON))
        (fader (group_tracks ! 1)) = Some False
   \<and> ftype (fader (group_tracks ! 1)) \<noteq> MidiChannel
   \<and> effectively_muted 3 (example_project group_tracks BOUNCE_ON) (fader (group_tracks ! 1))
       (local_track (fader (group_tracks ! 1))) = Some True"
  using effectively_muted_formula[of "fader (group_tracks ! 1)" 3
      "example_project group_tracks BOUNCE_ON" False]
  by (simp add: group_tracks_def example_defs numeral_3_eq_3)

section \<open>Buffers and stages of the audio path\<close>

lemma at_offset_length:
  "off + sz \<le> length buf \<Longrightarrow> length (g (take sz (drop off buf))) = sz
   \<Longrightarrow> length (at_offset off sz g buf) = length buf"
  by (simp add: at_offset_def)

lemma at_offset_nth_in:
  assumes "off + sz \<le> length buf" and "off \<le> i" and "i < off + sz"
    and "length (g (take sz (drop off buf))) = sz"
  shows "at_offset off sz g buf ! i = g (take sz (drop off buf)) ! (i - off)"
  using assms by (auto simp: at_offset_def nth_append)

lemma at_offset_nth_out:
  assumes "off + sz \<le> length buf" and "i < off \<or> off + sz \<le> i"
    and "length (g (take sz (drop off buf))) = sz"
  shows "at_offset off sz g buf ! i = buf ! i"
  using assms by (auto simp: at_offset_def nth_append)

lemma of_control_real [simp]: "(of_control v :: real) = v"
  by (simp add: of_control_def)

lemma of_control_sample [simp]: "(of_control v :: sample) = Finite v"
  by (simp add: of_control_def one_sample_def)

lemma numeral_sample: "(numeral k :: sample) = Finite (numeral k)"
proof (induction k)
  case One
  show ?case by (simp add: one_sample_def)
next
  case (Bit0 k)
  then show ?case by (simp only: numeral_Bit0 plus_sample.simps)
next
  case (Bit1 k)
  then show ?case by (simp only: numeral_Bit1 plus_sample.simps one_sample_def)
qed

lemma length_dsp [simp]:
  "length (dsp_fill v xs) = length xs"
  "length (dsp_clip lo hi ys) = length ys"
  "length (dsp_mul_k2 k zs) = length zs"
  "length (dsp_linear_fade_in_from a b c us) = length us"
  "length (dsp_linear_fade_out_to a b c vs) = length vs"
  by (simp_all add: dsp_fill_def dsp_clip_def dsp_mul_k2_def dsp_linear_fade_in_from_def
      dsp_linear_fade_out_to_def)

lemma length_mix [simp]: "length (dsp_mix_product src k dest) = min (length dest) (length src)"
  by (simp add: dsp_mix_product_def)

lemma length_mono [simp]: "length (dsp_make_mono l r) = min (length l) (length r)"
  by (simp add: dsp_make_mono_def)

lemma at_offset_length_simple [simp]:
  "off + sz \<le> length buf \<Longrightarrow> length (at_offset off sz (dsp_mul_k2 k) buf) = length buf"
  "off + sz \<le> length xs \<Longrightarrow> length (at_offset off sz (dsp_fill v) xs) = length xs"
  "off + sz \<le> length ys \<Longrightarrow> length (at_offset off sz (dsp_clip lo hi) ys) = length ys"
  "off + sz \<le> length us \<Longrightarrow> length (at_offset off sz (dsp_linear_fade_in_from a b c) us) = length us"
  "off + sz \<le> length vs \<Longrightarrow> length (at_offset off sz (dsp_linear_fade_out_to a b c) vs) = length vs"
  by (simp_all add: at_offset_length)

lemma mix_listened_lengths:
  assumes "fits off n out"
    and "has_channel t \<and> out_signal_audio t \<and> get_listened t
         \<longrightarrow> off + n \<le> length (fader_out_l t) \<and> off + n \<le> length (fader_out_r t)"
  shows "same_lengths (mix_listened off n k t out) out"
  using assms by (auto simp: mix_listened_def same_lengths_def fits_def at_offset_length)

lemma fold_mix_listened_lengths:
  assumes "fits off n out"
    and "list_all (\<lambda>t. has_channel t \<and> out_signal_audio t \<and> get_listened t
         \<longrightarrow> off + n \<le> length (fader_out_l t) \<and> off + n \<le> length (fader_out_r t)) tks"
  shows "same_lengths (fold (mix_listened off n k) tks out) out"
  using assms
proof (induction tks arbitrary: out)
  case Nil
  then show ?case by (simp add: same_lengths_def)
next
  case (Cons t tks)
  from Cons.prems have m: "same_lengths (mix_listened off n k t out) out"
    by (intro mix_listened_lengths) auto
  with Cons.prems have "fits off n (mix_listened off n k t out)"
    by (simp add: fits_def same_lengths_def)
  with Cons.IH[of "mix_listened off n k t out"] Cons.prems
  have "same_lengths (fold (mix_listened off n k) tks (mix_listened off n k t out))
          (mix_listened off n k t out)" by simp
  with m show ?case by (simp add: same_lengths_def)
qed

lemma monitor_stage_lengths:
  assumes "fits off n out"
    and "has_listened (tracklist p) \<longrightarrow>
         list_all (\<lambda>t. has_channel t \<and> out_signal_audio t \<and> get_listened t
           \<longrightarrow> off + n \<le> length (fader_out_l t) \<and> off + n \<le> length (fader_out_r t)) (tracklist p)"
  shows "same_lengths (monitor_stage p off n out) out"
proof -
  let ?d = "(at_offset off n (dsp_mul_k2 (dim_fader_amp p)) (fst out),
             at_offset off n (dsp_mul_k2 (dim_fader_amp p)) (snd out))"
  let ?o1 = "if has_listened (tracklist p)
             then fold (mix_listened off n (listen_fader_amp p)) (tracklist p) ?d else out"
  have d: "same_lengths ?d out" "fits off n ?d"
    using assms(1) by (simp_all add: same_lengths_def fits_def)
  have o1: "same_lengths ?o1 out"
  proof (cases "has_listened (tracklist p)")
    case True
    with assms(2) d(2) have "same_lengths (fold (mix_listened off n (listen_fader_amp p)) (tracklist p) ?d) ?d"
      by (intro fold_mix_listened_lengths) auto
    with d True show ?thesis by (simp add: same_lengths_def)
  next
    case False
    then show ?thesis by (simp add: same_lengths_def)
  qed
  with assms(1) have "fits off n ?o1" by (simp add: fits_def same_lengths_def)
  with o1 show ?thesis
    by (simp add: monitor_stage_def Let_def same_lengths_def fits_def)
qed

lemma handle_fade_in_lengths:
  assumes "handle_fade_in dff ma off n (f, l, r) = Inr (f', l', r')"
    and "off + n \<le> length l" and "off + n \<le> length r"
  shows "length l' = length l \<and> length r' = length r \<and> ftype f' = ftype f \<and> track f' = track f
         \<and> amp f' = amp f \<and> balance f' = balance f \<and> mono_compat_enabled f' = mono_compat_enabled f
         \<and> swap_phase f' = swap_phase f
         \<and> fade_out_samples f' = fade_out_samples f \<and> fading_out f' = fading_out f"
  using assms by (auto simp: handle_fade_in_def split: if_splits)

lemma handle_fade_out_lengths:
  assumes "handle_fade_out dff ma off n (f, l, r) = Inr (f', l', r', fd)"
    and "off + n \<le> length l" and "off + n \<le> length r"
  shows "length l' = length l \<and> length r' = length r \<and> ftype f' = ftype f \<and> track f' = track f
         \<and> amp f' = amp f \<and> balance f' = balance f \<and> mono_compat_enabled f' = mono_compat_enabled f
         \<and> swap_phase f' = swap_phase f \<and> fd \<le> n"
  using assms
  by (auto simp: handle_fade_out_def Let_def split: if_splits prod.splits)

lemma apply_fader_and_pan_lengths:
  "fits off n out \<Longrightarrow> same_lengths (apply_fader_and_pan p f off n out) out"
  by (auto simp: apply_fader_and_pan_def same_lengths_def fits_def split: prod.splits)

lemma make_mono_stage_lengths:
  "fits off n out \<Longrightarrow> same_lengths (make_mono_stage f off n out) out"
  by (auto simp: make_mono_stage_def same_lengths_def fits_def at_offset_length)

lemma swap_phase_stage_lengths:
  "fits off n out \<Longrightarrow> same_lengths (swap_phase_stage f off n out) out"
  by (auto simp: swap_phase_stage_def same_lengths_def fits_def)

lemma apply_mute_level_lengths:
  "fits off n out \<Longrightarrow> fd \<le> n \<Longrightarrow> same_lengths (apply_mute_level p em ma f off n fd out) out"
  by (auto simp: apply_mute_level_def same_lengths_def fits_def)

lemma fits_same_lengths: "same_lengths a b \<Longrightarrow> fits off n b \<Longrightarrow> fits off n a"
  by (simp add: same_lengths_def fits_def)

lemma same_lengths_trans: "same_lengths a b \<Longrightarrow> same_lengths b c \<Longrightarrow> same_lengths a c"
  by (simp add: same_lengths_def)

text \<open>
  The clamp gives a sample inside its bounds, or the NaN it was given.
\<close>

lemma std_clamp_sample:
  "std_clamp x (- 2) 2 \<noteq> NaN \<Longrightarrow> (- 2 :: sample) \<le> std_clamp x (- 2) 2 \<and> std_clamp x (- 2) 2 \<le> 2"
  by (cases x) (auto simp: std_clamp_def numeral_sample)

lemma std_clamp_sample_NaN: "std_clamp x (- 2) (2 :: sample) = NaN \<longleftrightarrow> x = NaN"
  by (cases x) (auto simp: std_clamp_def numeral_sample)

lemma clip_at_offset_clamped:
  assumes "off + n \<le> length buf" and "off \<le> i" and "i < off + n"
  shows "at_offset off n (dsp_clip lo hi) buf ! i = std_clamp (buf ! i) lo hi"
proof -
  from assms have "at_offset off n (dsp_clip lo hi) buf ! i
      = dsp_clip lo hi (take n (drop off buf)) ! (i - off)"
    by (intro at_offset_nth_in) simp_all
  moreover from assms have "i - off < length (take n (drop off buf))" by simp
  ultimately have "at_offset off n (dsp_clip lo hi) buf ! i
      = std_clamp (take n (drop off buf) ! (i - off)) lo hi"
    by (simp only: dsp_clip_def nth_map)
  with assms show ?thesis by simp
qed

lemma hard_limit_stage_clamped:
  assumes "fits off n out" and "hard_limits p f" and "off \<le> i" and "i < off + n"
  shows "fst (hard_limit_stage p f off n out) ! i = std_clamp (fst out ! i) (- 2) 2
       \<and> snd (hard_limit_stage p f off n out) ! i = std_clamp (snd out ! i) (- 2) 2"
  using assms clip_at_offset_clamped[of off n "fst out" i] clip_at_offset_clamped[of off n "snd out" i]
  by (simp add: hard_limit_stage_def fits_def)

lemma hard_limits_cong: "ftype f' = ftype f \<Longrightarrow> track f' = track f \<Longrightarrow> hard_limits p f' = hard_limits p f"
  by (simp add: hard_limits_def local_track_def)

lemma arm_fades_fields:
  "ftype (arm_fades d em f) = ftype f \<and> track (arm_fades d em f) = track f
   \<and> amp (arm_fades d em f) = amp f \<and> balance (arm_fades d em f) = balance f
   \<and> mono_compat_enabled (arm_fades d em f) = mono_compat_enabled f
   \<and> swap_phase (arm_fades d em f) = swap_phase f"
  by (simp add: arm_fades_def)

text \<open>The result of the audio path, unfolded once.\<close>

lemma process_audio_Inr:
  assumes "process_audio p f em off n out = Inr (f', l, r)"
  shows "\<exists>f2 l2 r2 l3 r3 fd.
    handle_fade_in (fade_frames_for_type p (ftype f))
       (if ftype f = Monitor then denormal_prevention_val p else mute_fader_amp p) off n
       (if ftype f = Monitor then f else arm_fades (fade_frames_for_type p (ftype f)) em f,
        if ftype f = Monitor then monitor_stage p off n out else out) = Inr (f2, l2, r2)
    \<and> handle_fade_out (fade_frames_for_type p (ftype f))
       (if ftype f = Monitor then denormal_prevention_val p else mute_fader_amp p) off n
       (f2, l2, r2) = Inr (f', l3, r3, fd)
    \<and> (l, r) = hard_limit_stage p f' off n
       (apply_mute_level p em (if ftype f = Monitor then denormal_prevention_val p else mute_fader_amp p)
          f' off n fd
          (swap_phase_stage f' off n (make_mono_stage f' off n (apply_fader_and_pan p f' off n (l3, r3)))))"
  using assms
  by (auto simp: process_audio_def Let_def split: sum.splits prod.splits)

lemma process_audio_clamped:
  assumes res: "process_audio p f em off n out = Inr (f', l, r)"
    and fit: "fits off n out"
    and lis: "ftype f = Monitor \<and> has_listened (tracklist p) \<longrightarrow>
         list_all (\<lambda>t. has_channel t \<and> out_signal_audio t \<and> get_listened t
           \<longrightarrow> off + n \<le> length (fader_out_l t) \<and> off + n \<le> length (fader_out_r t)) (tracklist p)"
    and hl: "hard_limits p f" and i: "off \<le> i" "i < off + n"
  shows "\<exists>x y. l ! i = std_clamp x (- 2) 2 \<and> r ! i = std_clamp y (- 2) 2"
proof -
  define out1 where "out1 = (if ftype f = Monitor then monitor_stage p off n out else out)"
  define f1 where "f1 = (if ftype f = Monitor then f else arm_fades (fade_frames_for_type p (ftype f)) em f)"
  from process_audio_Inr[OF res] obtain f2 l2 r2 l3 r3 fd where
    fi: "handle_fade_in (fade_frames_for_type p (ftype f))
       (if ftype f = Monitor then denormal_prevention_val p else mute_fader_amp p) off n
       (f1, fst out1, snd out1) = Inr (f2, l2, r2)" and
    fo: "handle_fade_out (fade_frames_for_type p (ftype f))
       (if ftype f = Monitor then denormal_prevention_val p else mute_fader_amp p) off n
       (f2, l2, r2) = Inr (f', l3, r3, fd)" and
    fin: "(l, r) = hard_limit_stage p f' off n
       (apply_mute_level p em (if ftype f = Monitor then denormal_prevention_val p else mute_fader_amp p)
          f' off n fd
          (swap_phase_stage f' off n (make_mono_stage f' off n (apply_fader_and_pan p f' off n (l3, r3)))))"
    unfolding out1_def f1_def by auto
  have "same_lengths out1 out"
    using fit lis monitor_stage_lengths[of off n out p] by (auto simp: same_lengths_def out1_def)
  with fit have fit1: "fits off n out1" by (auto intro: fits_same_lengths)
  from handle_fade_in_lengths[OF fi] fit1
  have s2: "length l2 = length (fst out1)" "length r2 = length (snd out1)"
    "ftype f2 = ftype f1" "track f2 = track f1"
    by (simp_all add: fits_def)
  with fit1 have fit2: "off + n \<le> length l2" "off + n \<le> length r2" by (simp_all add: fits_def)
  from handle_fade_out_lengths[OF fo fit2]
  have s3: "length l3 = length l2" "length r3 = length r2" "ftype f' = ftype f2" "track f' = track f2"
    "fd \<le> n" by simp_all
  with fit2 have fit3: "fits off n (l3, r3)" by (simp add: fits_def)
  from f1_def arm_fades_fields[of "fade_frames_for_type p (ftype f)" em f]
  have "ftype f1 = ftype f" "track f1 = track f" by auto
  with s2 s3 hl have hl': "hard_limits p f'" using hard_limits_cong[of f' f p] by simp
  let ?o4 = "apply_fader_and_pan p f' off n (l3, r3)"
  let ?o5 = "make_mono_stage f' off n ?o4"
  let ?o6 = "swap_phase_stage f' off n ?o5"
  let ?o7 = "apply_mute_level p em (if ftype f = Monitor then denormal_prevention_val p else mute_fader_amp p)
          f' off n fd ?o6"
  have fit4: "fits off n ?o4"
    using fit3 apply_fader_and_pan_lengths fits_same_lengths by blast
  have fit5: "fits off n ?o5"
    using fit4 make_mono_stage_lengths fits_same_lengths by blast
  have fit6: "fits off n ?o6"
    using fit5 swap_phase_stage_lengths fits_same_lengths by blast
  have fit7: "fits off n ?o7"
    using fit6 s3(5) apply_mute_level_lengths fits_same_lengths by blast
  from hard_limit_stage_clamped[OF fit7 hl' i] fin show ?thesis
    by (metis fst_conv snd_conv)
qed

lemma fade_out_nth:
  "i < length xs \<Longrightarrow>
   dsp_linear_fade_out_to s t m xs ! i
     = xs ! i * (m + (1 - m) * (1 - real_of_int (s + int i) / real_of_int t))"
  by (simp add: dsp_linear_fade_out_to_def nth_enumerate_eq)

lemma mul_k2_nth: "i < length xs \<Longrightarrow> dsp_mul_k2 k xs ! i = xs ! i * k"
  by (simp add: dsp_mul_k2_def)

lemma at_offset_mul_nth:
  assumes "off + n \<le> length buf" and "i < n"
  shows "at_offset off n (dsp_mul_k2 k) buf ! (off + i) = buf ! (off + i) * k"
proof -
  from assms have "at_offset off n (dsp_mul_k2 k) buf ! (off + i)
      = dsp_mul_k2 k (take n (drop off buf)) ! (off + i - off)"
    by (intro at_offset_nth_in) simp_all
  with assms show ?thesis by (simp add: mul_k2_nth)
qed

lemma at_offset_fade_out_nth:
  assumes "off + sz \<le> length buf" and "i < sz"
  shows "at_offset off sz (dsp_linear_fade_out_to s t m) buf ! (off + i)
     = buf ! (off + i) * (m + (1 - m) * (1 - real_of_int (s + int i) / real_of_int t))"
proof -
  from assms have "at_offset off sz (dsp_linear_fade_out_to s t m) buf ! (off + i)
      = dsp_linear_fade_out_to s t m (take sz (drop off buf)) ! (off + i - off)"
    by (intro at_offset_nth_in) simp_all
  with assms show ?thesis by (simp add: fade_out_nth)
qed

lemma at_offset_copy_nth:
  assumes "off + n \<le> length buf" and "off + n \<le> length src" and "i < n"
  shows "at_offset off n (\<lambda>d. take n (drop off src)) buf ! (off + i) = src ! (off + i)"
proof -
  from assms have "at_offset off n (\<lambda>d. take n (drop off src)) buf ! (off + i)
      = take n (drop off src) ! (off + i - off)"
    by (intro at_offset_nth_in) simp_all
  with assms show ?thesis by simp
qed

lemma at_offset_copy_length:
  "off + n \<le> length buf \<Longrightarrow> off + n \<le> length src
   \<Longrightarrow> length (at_offset off n (\<lambda>d. take n (drop off src)) buf) = length buf"
  by (simp add: at_offset_length)

lemma handle_fade_out_armed:
  assumes fo: "fading_out f" and fos: "fade_out_samples f = N" and N: "0 < N"
    and ll: "off + n \<le> length l" and lr: "off + n \<le> length r"
  shows "\<exists>l' r' fd. handle_fade_out N ma off n (f, l, r)
            = Inr (f\<lparr>fade_out_samples := N - min N (int n)\<rparr>, l', r', fd)
          \<and> fd = n
          \<and> length l' = length l \<and> length r' = length r
          \<and> (\<forall>i<n. int i < N \<longrightarrow>
                l' ! (off + i) = l ! (off + i) * (ma + (1 - ma) * (1 - real i / real_of_int N))
              \<and> r' ! (off + i) = r ! (off + i) * (ma + (1 - ma) * (1 - real i / real_of_int N)))"
proof (cases "N \<le> int n")
  case True
  define stp where "stp = nat N"
  from True N have stp: "stp \<le> n" "int stp = N" "0 < stp" by (simp_all add: stp_def)
  let ?l1 = "at_offset off stp (dsp_linear_fade_out_to 0 N ma) l"
  let ?r1 = "at_offset off stp (dsp_linear_fade_out_to 0 N ma) r"
  let ?l2 = "if n - stp > 0 then at_offset (off + stp) (n - stp) (dsp_mul_k2 ma) ?l1 else ?l1"
  let ?r2 = "if n - stp > 0 then at_offset (off + stp) (n - stp) (dsp_mul_k2 ma) ?r1 else ?r1"
  have len1: "length ?l1 = length l" "length ?r1 = length r"
    using ll lr stp by simp_all
  have len2: "length ?l2 = length l" "length ?r2 = length r"
    using ll lr stp len1 by simp_all
  have res: "handle_fade_out N ma off n (f, l, r)
      = Inr (f\<lparr>fade_out_samples := N - min N (int n)\<rparr>, ?l2, ?r2, n)"
    using fo fos N True stp
    by (auto simp: handle_fade_out_def Let_def stp_def min_def max_def)
  have nth: "l2 ! (off + i) = l ! (off + i) * (ma + (1 - ma) * (1 - real i / real_of_int N))
     \<and> r2 ! (off + i) = r ! (off + i) * (ma + (1 - ma) * (1 - real i / real_of_int N))"
    if "i < n" "int i < N" "l2 = ?l2" "r2 = ?r2" for i l2 r2
  proof -
    from that stp have i: "i < stp" by simp
    have a: "?l1 ! (off + i) = l ! (off + i) * (ma + (1 - ma) * (1 - real i / real_of_int N))"
      using at_offset_fade_out_nth[of off stp l i 0 N ma] ll stp i by simp
    have b: "?r1 ! (off + i) = r ! (off + i) * (ma + (1 - ma) * (1 - real i / real_of_int N))"
      using at_offset_fade_out_nth[of off stp r i 0 N ma] lr stp i by simp
    have c: "?l2 ! (off + i) = ?l1 ! (off + i)"
      using at_offset_nth_out[of "off + stp" "n - stp" ?l1 "off + i" "dsp_mul_k2 ma"] len1 ll stp i
      by simp
    have d: "?r2 ! (off + i) = ?r1 ! (off + i)"
      using at_offset_nth_out[of "off + stp" "n - stp" ?r1 "off + i" "dsp_mul_k2 ma"] len1 lr stp i
      by simp
    from a b c d that show ?thesis by simp
  qed
  from res len2 nth True show ?thesis by (intro exI[of _ ?l2] exI[of _ ?r2] exI[of _ n]) simp
next
  case False
  let ?l1 = "at_offset off n (dsp_linear_fade_out_to 0 N ma) l"
  let ?r1 = "at_offset off n (dsp_linear_fade_out_to 0 N ma) r"
  have res: "handle_fade_out N ma off n (f, l, r)
      = Inr (f\<lparr>fade_out_samples := N - min N (int n)\<rparr>, ?l1, ?r1, n)"
    using fo fos N False
    by (auto simp: handle_fade_out_def Let_def min_def max_def)
  have nth: "?l1 ! (off + i) = l ! (off + i) * (ma + (1 - ma) * (1 - real i / real_of_int N))
     \<and> ?r1 ! (off + i) = r ! (off + i) * (ma + (1 - ma) * (1 - real i / real_of_int N))"
    if "i < n" for i
    using at_offset_fade_out_nth[of off n l i 0 N ma] at_offset_fade_out_nth[of off n r i 0 N ma]
      ll lr that by simp
  from res nth False ll lr show ?thesis
    by (intro exI[of _ ?l1] exI[of _ ?r1] exI[of _ n]) simp
qed

lemma at_offset_clip_nth:
  assumes "off + n \<le> length buf" and "i < n"
  shows "at_offset off n (dsp_clip lo hi) buf ! (off + i) = std_clamp (buf ! (off + i)) lo hi"
proof -
  from assms have "at_offset off n (dsp_clip lo hi) buf ! (off + i)
      = dsp_clip lo hi (take n (drop off buf)) ! (off + i - off)"
    by (intro at_offset_nth_in) simp_all
  with assms show ?thesis by (simp add: dsp_clip_def)
qed

lemma post_fade_nth:
  assumes fit: "fits off n out" and i: "i < n" and mono: "\<not> mono_compat_enabled f"
  shows "fst (hard_limit_stage p f off n (apply_mute_level p em ma f off n n
            (swap_phase_stage f off n (make_mono_stage f off n (apply_fader_and_pan p f off n out)))))
           ! (off + i)
         = (let x = fst out ! (off + i) * (amp f * fst (calculate_balance_control p (balance f)))
                     * (if swap_phase f then - 1 else 1)
            in if hard_limits p f then std_clamp x (- 2) 2 else x)"
    and "snd (hard_limit_stage p f off n (apply_mute_level p em ma f off n n
            (swap_phase_stage f off n (make_mono_stage f off n (apply_fader_and_pan p f off n out)))))
           ! (off + i)
         = (let x = snd out ! (off + i) * (amp f * snd (calculate_balance_control p (balance f)))
                     * (if swap_phase f then - 1 else 1)
            in if hard_limits p f then std_clamp x (- 2) 2 else x)"
proof -
  let ?o4 = "apply_fader_and_pan p f off n out"
  let ?o6 = "swap_phase_stage f off n ?o4"
  from fit have l: "off + n \<le> length (fst out)" "off + n \<le> length (snd out)"
    by (simp_all add: fits_def)
  have o4: "fst ?o4 ! (off + i) = fst out ! (off + i) * (amp f * fst (calculate_balance_control p (balance f)))"
    "snd ?o4 ! (off + i) = snd out ! (off + i) * (amp f * snd (calculate_balance_control p (balance f)))"
    using l i by (simp_all add: apply_fader_and_pan_def at_offset_mul_nth split: prod.splits)
  have fit4: "fits off n ?o4"
    using fit apply_fader_and_pan_lengths fits_same_lengths by blast
  then have l4: "off + n \<le> length (fst ?o4)" "off + n \<le> length (snd ?o4)"
    by (simp_all add: fits_def)
  have o6: "fst ?o6 ! (off + i) = fst ?o4 ! (off + i) * (if swap_phase f then - 1 else 1)"
    "snd ?o6 ! (off + i) = snd ?o4 ! (off + i) * (if swap_phase f then - 1 else 1)"
    using l4 i by (simp_all add: swap_phase_stage_def at_offset_mul_nth)
  have fit6: "fits off n ?o6"
    using fit4 swap_phase_stage_lengths fits_same_lengths by blast
  then have l6: "off + n \<le> length (fst ?o6)" "off + n \<le> length (snd ?o6)"
    by (simp_all add: fits_def)
  have e: "hard_limit_stage p f off n (apply_mute_level p em ma f off n n
            (swap_phase_stage f off n (make_mono_stage f off n ?o4)))
         = hard_limit_stage p f off n ?o6"
    using mono by (simp add: make_mono_stage_def apply_mute_level_def)
  have h: "fst (hard_limit_stage p f off n ?o6) ! (off + i)
             = (if hard_limits p f then std_clamp (fst ?o6 ! (off + i)) (- 2) 2 else fst ?o6 ! (off + i))"
    "snd (hard_limit_stage p f off n ?o6) ! (off + i)
             = (if hard_limits p f then std_clamp (snd ?o6 ! (off + i)) (- 2) 2 else snd ?o6 ! (off + i))"
    using l6 i by (simp_all add: hard_limit_stage_def at_offset_clip_nth)
  show "fst (hard_limit_stage p f off n (apply_mute_level p em ma f off n n
            (swap_phase_stage f off n (make_mono_stage f off n (apply_fader_and_pan p f off n out)))))
           ! (off + i)
         = (let x = fst out ! (off + i) * (amp f * fst (calculate_balance_control p (balance f)))
                     * (if swap_phase f then - 1 else 1)
            in if hard_limits p f then std_clamp x (- 2) 2 else x)"
    unfolding e h o6 o4 Let_def by simp
  show "snd (hard_limit_stage p f off n (apply_mute_level p em ma f off n n
            (swap_phase_stage f off n (make_mono_stage f off n (apply_fader_and_pan p f off n out)))))
           ! (off + i)
         = (let x = snd out ! (off + i) * (amp f * snd (calculate_balance_control p (balance f)))
                     * (if swap_phase f then - 1 else 1)
            in if hard_limits p f then std_clamp x (- 2) 2 else x)"
    unfolding e h o6 o4 Let_def by simp
qed

lemma handle_fade_in_returns:
  "fade_in_samples f \<le> dff \<Longrightarrow>
   \<exists>f' l' r'. handle_fade_in dff ma off n (f, l, r) = Inr (f', l', r')
      \<and> fade_out_samples f' = fade_out_samples f \<and> fading_out f' = fading_out f"
  by (simp add: handle_fade_in_def)

lemma handle_fade_out_returns:
  "fade_out_samples f \<le> dff \<Longrightarrow> \<exists>res. handle_fade_out dff ma off n (f, l, r) = Inr res"
  by (simp add: handle_fade_out_def Let_def split: prod.splits)

lemma process_audio_returns:
  assumes "fade_in_samples f \<le> fade_frames_for_type p (ftype f)"
    and "fade_out_samples f \<le> fade_frames_for_type p (ftype f)"
  shows "\<exists>res. process_audio p f em off n out = Inr res"
proof -
  let ?dff = "fade_frames_for_type p (ftype f)"
  let ?ma = "if ftype f = Monitor then denormal_prevention_val p else mute_fader_amp p"
  let ?f1 = "if ftype f = Monitor then f else arm_fades ?dff em f"
  let ?o1 = "if ftype f = Monitor then monitor_stage p off n out else out"
  from assms have a: "fade_in_samples ?f1 \<le> ?dff" "fade_out_samples ?f1 \<le> ?dff"
    by (auto simp: arm_fades_def)
  from handle_fade_in_returns[OF a(1), of ?ma off n "fst ?o1" "snd ?o1"]
  obtain f2 l2 r2 where fi: "handle_fade_in ?dff ?ma off n (?f1, fst ?o1, snd ?o1) = Inr (f2, l2, r2)"
    and "fade_out_samples f2 = fade_out_samples ?f1" by blast
  with a have "fade_out_samples f2 \<le> ?dff" by simp
  from handle_fade_out_returns[OF this, of ?ma off n l2 r2]
  obtain res where "handle_fade_out ?dff ?ma off n (f2, l2, r2) = Inr res" by blast
  with fi show ?thesis
    by (cases res) (simp add: process_audio_def Let_def)
qed

lemmas stage_defs = process_block_def process_audio_def effectively_muted_def has_audio_ports_def
  buffers_fit_def at_offset_def monitor_stage_def arm_fades_def handle_fade_in_def
  handle_fade_out_def apply_fader_and_pan_def make_mono_stage_def swap_phase_stage_def
  apply_mute_level_def hard_limits_def hard_limit_stage_def fade_frames_for_type_def
  dsp_clip_def dsp_fill_def dsp_mul_k2_def dsp_linear_fade_out_to_def dsp_linear_fade_in_from_def
  std_clamp_def has_listened_def get_listened_def Let_def

subsection \<open>MIDI bytes and rounding to float\<close>





















section \<open>Hard limit\<close>

text \<open>
  Claim C5, as the specification states it, fails for the pre-fader of the master track:
  it is an audio channel fader of the master track, it copies its input to its output
  and does nothing else, so a sample of 3.0 leaves it unchanged.  It also fails for a
  sample that is NaN: the clamp compares, every comparison with NaN is false, and the
  NaN in the left input of \<open>nan_ports\<close> leaves the master fader as it came, while
  the infinity and the finite samples beside it are limited.
\<close>

theorem master_prefader_not_limited:
  "hard_limits (example_project master_and_unrouted BOUNCE_OFF) master_prefader
   \<and> process_block 0 (example_project master_and_unrouted BOUNCE_OFF) master_prefader 0 2 loud_ports
       = Inr (master_prefader, loud_ports\<lparr>stereo_out_l := [3, 1], stereo_out_r := [3, 1]\<rparr>)
   \<and> \<not> (3::real) \<le> 2
   \<and> hard_limits (example_project master_alone BOUNCE_OFF) (fader (master_alone ! 0))
   \<and> \<not> passthrough (fader (master_alone ! 0))
   \<and> process_block 2 (example_project master_alone BOUNCE_OFF) (fader (master_alone ! 0)) 0 2 nan_ports
       = Inr (fader (master_alone ! 0),
              nan_ports\<lparr>stereo_out_l := [NaN, 2], stereo_out_r := [2, - 2]\<rparr>)
   \<and> \<not> NaN \<le> (2 :: sample)"
  by (simp add: stage_defs master_prefader_def loud_ports_def master_and_unrouted_def example_defs
      master_alone_def nan_ports_def numeral_sample zero_sample_def numeral_2_eq_2)

text \<open>
  Claim C5, amended: for a fader that is not a pre-fader and is the audio channel fader
  of the master track, the monitor fader or the sample processor fader, every sample of
  the processed block \<open>[local_offset, local_offset + nframes)\<close> of both output buffers
  that is not NaN lies in \<open>[-2, 2]\<close> when \<open>process_block\<close> has processed the block
  (the samples are floats, infinities and NaN included); and it does process the block
  when the mute state is determined, the block lies inside the buffers and the fade
  counters do not exceed the fade length.
\<close>

theorem hard_limit_range:
  fixes ports :: "sample Ports"
  assumes "\<not> passthrough f" and "hard_limits p f"
  shows "(process_block fuel p f off n ports = Inr (f', ports') \<longrightarrow>
            (\<forall>i. off \<le> i \<and> i < off + n \<longrightarrow>
               (stereo_out_l ports' ! i \<noteq> NaN \<longrightarrow>
                  - 2 \<le> stereo_out_l ports' ! i \<and> stereo_out_l ports' ! i \<le> 2)
               \<and> (stereo_out_r ports' ! i \<noteq> NaN \<longrightarrow>
                  - 2 \<le> stereo_out_r ports' ! i \<and> stereo_out_r ports' ! i \<le> 2)))
       \<and> (effectively_muted fuel p f (local_track f) \<noteq> None \<and> buffers_fit p f off n ports
          \<and> fade_in_samples f \<le> fade_frames_for_type p (ftype f)
          \<and> fade_out_samples f \<le> fade_frames_for_type p (ftype f)
          \<longrightarrow> (\<exists>res. process_block fuel p f off n ports = Inr res))"
proof (rule conjI)
  show "process_block fuel p f off n ports = Inr (f', ports') \<longrightarrow>
            (\<forall>i. off \<le> i \<and> i < off + n \<longrightarrow>
               (stereo_out_l ports' ! i \<noteq> NaN \<longrightarrow>
                  - 2 \<le> stereo_out_l ports' ! i \<and> stereo_out_l ports' ! i \<le> 2)
               \<and> (stereo_out_r ports' ! i \<noteq> NaN \<longrightarrow>
                  - 2 \<le> stereo_out_r ports' ! i \<and> stereo_out_r ports' ! i \<le> 2))"
  proof (intro impI allI)
    fix i
    assume pb: "process_block fuel p f off n ports = Inr (f', ports')"
      and i: "off \<le> i \<and> i < off + n"
    from assms(2) have hap: "has_audio_ports f"
      by (auto simp: hard_limits_def has_audio_ports_def)
    let ?out0 = "(at_offset off n (\<lambda>d. take n (drop off (stereo_in_l ports))) (stereo_out_l ports),
                  at_offset off n (\<lambda>d. take n (drop off (stereo_in_r ports))) (stereo_out_r ports))"
    from pb hap assms(1) obtain em f3 l r where
      bf: "buffers_fit p f off n ports"
      and pa: "process_audio p f em off n ?out0 = Inr (f3, l, r)"
      and res: "ports' = ports\<lparr>stereo_out_l := l, stereo_out_r := r\<rparr>"
      by (auto simp: process_block_def Let_def split: if_splits option.splits sum.splits)
    from bf have fit: "fits off n ?out0"
      by (simp add: buffers_fit_def fits_def at_offset_copy_length)
    from bf assms(1) have lis: "ftype f = Monitor \<and> has_listened (tracklist p) \<longrightarrow>
           list_all (\<lambda>t. has_channel t \<and> out_signal_audio t \<and> get_listened t
             \<longrightarrow> off + n \<le> length (fader_out_l t) \<and> off + n \<le> length (fader_out_r t)) (tracklist p)"
      by (simp add: buffers_fit_def)
    from process_audio_clamped[OF pa fit lis assms(2)] i obtain x y where
      xy: "l ! i = std_clamp x (- 2) 2" "r ! i = std_clamp y (- 2) 2" by blast
    from res xy std_clamp_sample[of x] std_clamp_sample[of y]
    show "(stereo_out_l ports' ! i \<noteq> NaN \<longrightarrow>
                  - 2 \<le> stereo_out_l ports' ! i \<and> stereo_out_l ports' ! i \<le> 2)
               \<and> (stereo_out_r ports' ! i \<noteq> NaN \<longrightarrow>
                  - 2 \<le> stereo_out_r ports' ! i \<and> stereo_out_r ports' ! i \<le> 2)"
      by simp
  qed
next
  show "effectively_muted fuel p f (local_track f) \<noteq> None \<and> buffers_fit p f off n ports
          \<and> fade_in_samples f \<le> fade_frames_for_type p (ftype f)
          \<and> fade_out_samples f \<le> fade_frames_for_type p (ftype f)
          \<longrightarrow> (\<exists>res. process_block fuel p f off n ports = Inr res)"
  proof (rule impI)
    assume pre: "effectively_muted fuel p f (local_track f) \<noteq> None \<and> buffers_fit p f off n ports
            \<and> fade_in_samples f \<le> fade_frames_for_type p (ftype f)
            \<and> fade_out_samples f \<le> fade_frames_for_type p (ftype f)"
    then obtain em where em: "effectively_muted fuel p f (local_track f) = Some em" by auto
    from assms(2) have hap: "has_audio_ports f"
      by (auto simp: hard_limits_def has_audio_ports_def)
    from assms(2) have chk: "\<not> (ftype f = AudioChannel
           \<and> (case track f of None \<Rightarrow> True | Some i \<Rightarrow> get_track (tracklist p) i = None))"
      by (auto simp: hard_limits_def local_track_def split: option.splits)
    let ?out0 = "(at_offset off n (\<lambda>d. take n (drop off (stereo_in_l ports))) (stereo_out_l ports),
                  at_offset off n (\<lambda>d. take n (drop off (stereo_in_r ports))) (stereo_out_r ports))"
    from pre process_audio_returns[of f p em off n ?out0]
    obtain res where "process_audio p f em off n ?out0 = Inr res" by blast
    with chk em hap pre assms(1) show "\<exists>res. process_block fuel p f off n ports = Inr res"
      by (cases res) (simp add: process_block_def Let_def)
  qed
qed

theorem hard_limit_range_witness:
  "\<not> passthrough (fader (master_alone ! 0))
   \<and> hard_limits (example_project master_alone BOUNCE_OFF) (fader (master_alone ! 0))
   \<and> process_block 2 (example_project master_alone BOUNCE_OFF) (fader (master_alone ! 0)) 0 2 nan_ports
       = Inr (fader (master_alone ! 0),
              nan_ports\<lparr>stereo_out_l := [NaN, 2], stereo_out_r := [2, - 2]\<rparr>)
   \<and> stereo_out_r (nan_ports\<lparr>stereo_out_l := [NaN, 2], stereo_out_r := [2, - 2]\<rparr>) ! 0 \<noteq> NaN
   \<and> stereo_out_r (nan_ports\<lparr>stereo_out_l := [NaN, 2], stereo_out_r := [2, - 2]\<rparr>) ! 0 \<le> 2"
proof -
  have a: "\<not> passthrough (fader (master_alone ! 0))"
    "hard_limits (example_project master_alone BOUNCE_OFF) (fader (master_alone ! 0))"
    by (simp_all add: hard_limits_def master_alone_def example_defs)
  have e: "process_block 2 (example_project master_alone BOUNCE_OFF) (fader (master_alone ! 0)) 0 2 nan_ports
       = Inr (fader (master_alone ! 0),
              nan_ports\<lparr>stereo_out_l := [NaN, 2], stereo_out_r := [2, - 2]\<rparr>)"
    by (simp add: stage_defs nan_ports_def master_alone_def example_defs numeral_sample
        zero_sample_def numeral_2_eq_2)
  have n: "stereo_out_r (nan_ports\<lparr>stereo_out_l := [NaN, 2], stereo_out_r := [2, - 2]\<rparr>) ! 0 \<noteq> NaN"
    by (simp add: numeral_sample)
  from hard_limit_range[OF a, of 2 0 2 nan_ports "fader (master_alone ! 0)"
      "nan_ports\<lparr>stereo_out_l := [NaN, 2], stereo_out_r := [2, - 2]\<rparr>"] e n
  have "stereo_out_r (nan_ports\<lparr>stereo_out_l := [NaN, 2], stereo_out_r := [2, - 2]\<rparr>) ! 0 \<le> 2"
    by auto
  with a e n show ?thesis by simp
qed

section \<open>Fade-out on a mute transition\<close>

text \<open>
  Claim C4, as the specification states it, fails: the monitor fader arms no fade when
  it becomes muted (the fade is armed in the branch of the other fader types) and its
  output is at the mute level at once; and the output of a channel fader is also scaled
  by the fader's amplitude and pan, so at half amplitude sample 1 of a fade of 4 samples
  is \<open>in * 3/8\<close>, not \<open>in * 3/4\<close>.
\<close>

theorem mute_transition_counterexamples:
  "process_block 0 (example_project [] BOUNCE_OFF) muted_monitor 0 2 loud_ports
       = Inr (muted_monitor\<lparr>was_effectively_muted := True\<rparr>,
              loud_ports\<lparr>stereo_out_l := [0, 0], stereo_out_r := [0, 0]\<rparr>)
   \<and> \<not> fading_out (muted_monitor\<lparr>was_effectively_muted := True\<rparr>)
   \<and> \<not> was_effectively_muted muted_monitor
   \<and> process_block 0 (example_project master_and_unrouted BOUNCE_OFF) muted_half 0 2 loud_ports
       = Inr (muted_half\<lparr>was_effectively_muted := True, fading_out := True, fade_out_samples := 2\<rparr>,
              loud_ports\<lparr>stereo_out_l := [3/2, 3/8], stereo_out_r := [3/2, 3/8]\<rparr>)
   \<and> stereo_in_l loud_ports ! 1 * fade_out_gain 0 4 1 = 3/4"
  by (simp add: stage_defs muted_monitor_def muted_half_def loud_ports_def master_and_unrouted_def
      example_defs fade_out_gain_def)

text \<open>
  Claim C4, amended: for an audio channel or sample processor fader that is not a
  pre-fader, was not effectively muted in the previous block, is effectively muted now
  and has no fade-in pending, \<open>process_block\<close> arms a fade-out of
  \<open>FADER_DEFAULT_FADE_FRAMES_SHORT\<close> samples (the monitor fader arms none), consumes
  \<open>min N nframes\<close> of it in this block, and, with mono compatibility off, the output
  sample \<open>i\<close> of the block (for \<open>i < N\<close>) is \<open>in[i]\<close> times the fade gain
  \<open>mute_amp + (1 - mute_amp) * (1 - i/N)\<close> times the fader's amplitude and pan gain,
  negated when the phase is swapped and hard-limited where the fader has a limit.
\<close>

theorem mute_fade_out:
  assumes ty: "ftype f = AudioChannel \<or> ftype f = SampleProcessor"
    and pt: "\<not> passthrough f"
    and was: "\<not> was_effectively_muted f"
    and em: "effectively_muted fuel p f (local_track f) = Some True"
    and tr: "ftype f = AudioChannel \<longrightarrow> (\<exists>i t. track f = Some i \<and> get_track (tracklist p) i = Some t)"
    and bf: "buffers_fit p f off n ports"
    and fis: "fade_in_samples f \<le> 0"
    and N: "0 < FADER_DEFAULT_FADE_FRAMES_SHORT p"
    and mono: "\<not> mono_compat_enabled f"
  shows "\<exists>f' ports'. process_block fuel p f off n ports = Inr (f', ports')
     \<and> arm_fades (fade_frames_for_type p (ftype f)) True f
         = f\<lparr>fade_out_samples := FADER_DEFAULT_FADE_FRAMES_SHORT p, fading_out := True\<rparr>
     \<and> fading_out f' \<and> was_effectively_muted f'
     \<and> fade_out_samples f' = FADER_DEFAULT_FADE_FRAMES_SHORT p
                               - min (FADER_DEFAULT_FADE_FRAMES_SHORT p) (int n)
     \<and> (\<forall>i<n. int i < FADER_DEFAULT_FADE_FRAMES_SHORT p \<longrightarrow>
          stereo_out_l ports' ! (off + i)
            = limited p f (stereo_in_l ports ! (off + i)
                * fade_out_gain (mute_fader_amp p) (FADER_DEFAULT_FADE_FRAMES_SHORT p) i
                * (amp f * fst (calculate_balance_control p (balance f)))
                * (if swap_phase f then - 1 else 1))
        \<and> stereo_out_r ports' ! (off + i)
            = limited p f (stereo_in_r ports ! (off + i)
                * fade_out_gain (mute_fader_amp p) (FADER_DEFAULT_FADE_FRAMES_SHORT p) i
                * (amp f * snd (calculate_balance_control p (balance f)))
                * (if swap_phase f then - 1 else 1)))"
proof -
  let ?N = "FADER_DEFAULT_FADE_FRAMES_SHORT p"
  let ?ma = "mute_fader_amp p"
  let ?l0 = "at_offset off n (\<lambda>d. take n (drop off (stereo_in_l ports))) (stereo_out_l ports)"
  let ?r0 = "at_offset off n (\<lambda>d. take n (drop off (stereo_in_r ports))) (stereo_out_r ports)"
  let ?f1 = "f\<lparr>fade_out_samples := ?N, fading_out := True\<rparr>"
  let ?f3 = "?f1\<lparr>fade_out_samples := ?N - min ?N (int n)\<rparr>"
  from ty have dff: "fade_frames_for_type p (ftype f) = ?N" by (auto simp: fade_frames_for_type_def)
  from was have arm: "arm_fades ?N True f = ?f1" by (simp add: arm_fades_def)
  from bf have lens: "off + n \<le> length (stereo_in_l ports)" "off + n \<le> length (stereo_in_r ports)"
    "off + n \<le> length (stereo_out_l ports)" "off + n \<le> length (stereo_out_r ports)"
    by (simp_all add: buffers_fit_def)
  then have l0: "length ?l0 = length (stereo_out_l ports)" "length ?r0 = length (stereo_out_r ports)"
    by (simp_all add: at_offset_copy_length)
  with lens have fit0: "off + n \<le> length ?l0" "off + n \<le> length ?r0" by simp_all
  have fi: "handle_fade_in ?N ?ma off n (?f1, ?l0, ?r0) = Inr (?f1, ?l0, ?r0)"
    using fis by (simp add: handle_fade_in_def)
  from handle_fade_out_armed[of ?f1 ?N off n ?l0 ?r0 ?ma] N fit0
  obtain l' r' fd where fo: "handle_fade_out ?N ?ma off n (?f1, ?l0, ?r0) = Inr (?f3, l', r', fd)"
    and fd: "fd = n"
    and len': "length l' = length ?l0" "length r' = length ?r0"
    and nth': "\<forall>i<n. int i < ?N \<longrightarrow>
                l' ! (off + i) = ?l0 ! (off + i) * (?ma + (1 - ?ma) * (1 - real i / real_of_int ?N))
              \<and> r' ! (off + i) = ?r0 ! (off + i) * (?ma + (1 - ?ma) * (1 - real i / real_of_int ?N))"
    by auto
  let ?out8 = "hard_limit_stage p ?f3 off n (apply_mute_level p True ?ma ?f3 off n n
            (swap_phase_stage ?f3 off n (make_mono_stage ?f3 off n
               (apply_fader_and_pan p ?f3 off n (l', r')))))"
  have pa: "process_audio p f True off n (?l0, ?r0) = Inr (?f3, fst ?out8, snd ?out8)"
    using ty dff arm fi fo fd by (auto simp: process_audio_def Let_def)
  have chk: "\<not> (ftype f = AudioChannel
         \<and> (case track f of None \<Rightarrow> True | Some i \<Rightarrow> get_track (tracklist p) i = None))"
    using tr by auto
  have hap: "has_audio_ports f" using ty by (auto simp: has_audio_ports_def)
  have pb: "process_block fuel p f off n ports
      = Inr (?f3\<lparr>was_effectively_muted := True\<rparr>,
             ports\<lparr>stereo_out_l := fst ?out8, stereo_out_r := snd ?out8\<rparr>)"
    using chk em hap bf pt pa by (simp add: process_block_def Let_def case_prod_beta)
  have hl: "hard_limits p ?f3 = hard_limits p f" by (simp add: hard_limits_def local_track_def)
  have fit': "fits off n (l', r')" using len' fit0 by (simp add: fits_def)
  have nth: "fst ?out8 ! (off + i)
            = limited p f (stereo_in_l ports ! (off + i)
                * fade_out_gain ?ma ?N i
                * (amp f * fst (calculate_balance_control p (balance f)))
                * (if swap_phase f then - 1 else 1))
        \<and> snd ?out8 ! (off + i)
            = limited p f (stereo_in_r ports ! (off + i)
                * fade_out_gain ?ma ?N i
                * (amp f * snd (calculate_balance_control p (balance f)))
                * (if swap_phase f then - 1 else 1))"
    if i: "i < n" "int i < ?N" for i
  proof -
    from nth' i have a: "l' ! (off + i) = ?l0 ! (off + i) * fade_out_gain ?ma ?N i"
      "r' ! (off + i) = ?r0 ! (off + i) * fade_out_gain ?ma ?N i"
      by (simp_all add: fade_out_gain_def)
    from lens i have b: "?l0 ! (off + i) = stereo_in_l ports ! (off + i)"
      "?r0 ! (off + i) = stereo_in_r ports ! (off + i)"
      by (simp_all add: at_offset_copy_nth)
    from post_fade_nth[OF fit' i(1), of ?f3 p True ?ma] mono a b hl show ?thesis
      by (simp add: limited_def Let_def)
  qed
  from pb arm dff nth show ?thesis by simp
qed

theorem mute_fade_out_witness:
  "(ftype muted_unity = AudioChannel \<or> ftype muted_unity = SampleProcessor)
   \<and> \<not> passthrough muted_unity \<and> \<not> was_effectively_muted muted_unity
   \<and> effectively_muted 0 (example_project master_and_unrouted BOUNCE_OFF) muted_unity
        (local_track muted_unity) = Some True
   \<and> buffers_fit (example_project master_and_unrouted BOUNCE_OFF) muted_unity 0 2 loud_ports
   \<and> fade_in_samples muted_unity \<le> 0
   \<and> 0 < FADER_DEFAULT_FADE_FRAMES_SHORT (example_project master_and_unrouted BOUNCE_OFF)
   \<and> \<not> mono_compat_enabled muted_unity
   \<and> (\<exists>f' ports'. process_block 0 (example_project master_and_unrouted BOUNCE_OFF) muted_unity 0 2
          loud_ports = Inr (f', ports')
        \<and> fade_out_samples f' = 2 \<and> stereo_out_l ports' ! 1 = 3/4)"
proof -
  let ?p = "example_project master_and_unrouted BOUNCE_OFF"
  have h: "ftype muted_unity = AudioChannel \<or> ftype muted_unity = SampleProcessor"
    "\<not> passthrough muted_unity" "\<not> was_effectively_muted muted_unity"
    "effectively_muted 0 ?p muted_unity (local_track muted_unity) = Some True"
    "ftype muted_unity = AudioChannel \<longrightarrow>
       (\<exists>i t. track muted_unity = Some i \<and> get_track (tracklist ?p) i = Some t)"
    "buffers_fit ?p muted_unity 0 2 loud_ports"
    "fade_in_samples muted_unity \<le> 0"
    "0 < FADER_DEFAULT_FADE_FRAMES_SHORT ?p"
    "\<not> mono_compat_enabled muted_unity"
    by (simp_all add: muted_unity_def loud_ports_def master_and_unrouted_def example_defs
        effectively_muted_def buffers_fit_def)
  from mute_fade_out[OF h] obtain f' ports' where
    pb: "process_block 0 ?p muted_unity 0 2 loud_ports = Inr (f', ports')"
    and fos: "fade_out_samples f' = FADER_DEFAULT_FADE_FRAMES_SHORT ?p
                - min (FADER_DEFAULT_FADE_FRAMES_SHORT ?p) (int 2)"
    and nth: "\<forall>i<2. int i < FADER_DEFAULT_FADE_FRAMES_SHORT ?p \<longrightarrow>
          stereo_out_l ports' ! (0 + i)
            = limited ?p muted_unity (stereo_in_l loud_ports ! (0 + i)
                * fade_out_gain (mute_fader_amp ?p) (FADER_DEFAULT_FADE_FRAMES_SHORT ?p) i
                * (amp muted_unity * fst (calculate_balance_control ?p (balance muted_unity)))
                * (if swap_phase muted_unity then - 1 else 1))"
    by blast
  from nth have "stereo_out_l ports' ! 1 = 3/4"
    by (simp add: limited_def hard_limits_def fade_out_gain_def muted_unity_def loud_ports_def
        master_and_unrouted_def example_defs)
  moreover from fos have "fade_out_samples f' = 2" by (simp add: example_project_def)
  ultimately show ?thesis using h pb by auto
qed

section \<open>MIDI velocity\<close>




section \<open>Wiring of the plugin strip\<close>

lemmas channel_defs = STRIP_SIZE_def slot_plugin_def prev_pl_id_def
  next_pl_id_def prev_plugins_def next_plugins_def connect_plugin_def connect_no_prev_no_next_def
  connect_no_prev_next_def connect_prev_no_next_def connect_prev_next_def Let_def

text \<open>
  Claim C8 against the code: in a strip with the MIDI FX plugin 10, the instrument 20
  and no inserts, the instrument has the previous plugin 10 and nothing after it, so by
  the claim its chain is Previous to Plugin to Prefader.  \<open>connect_plugins\<close> searches
  the next plugin of the instrument among the MIDI FX slots from slot 0 on, finds the
  plugin 10 again and wires the instrument back to it: the calls for the instrument are
  those of \<open>connect_prev_next\<close> with 10 on both sides (made once for each value of the
  inner loop counter), and no call connects the instrument to the pre-fader.
\<close>

theorem instrument_wired_back:
  "midi_fx fx_and_instrument ! 0 = Some 10 \<and> instrument fx_and_instrument = Some 20
   \<and> first_plugin (inserts fx_and_instrument) = None
   \<and> prev_pl_id fx_and_instrument Instrument 0 = Some 10
   \<and> next_pl_id fx_and_instrument Instrument 0 = Some 10
   \<and> connect_plugin fx_and_instrument Instrument 0 20 = connect_prev_next 10 20 10
   \<and> connect_plugin fx_and_instrument Instrument 0 20 \<noteq> connect_prev_no_next 10 20
   \<and> connections_made (connect_plugin fx_and_instrument Instrument 0 20)
        = [(Plugin 10, Plugin 20), (Plugin 20, Plugin 10)]
   \<and> connect_plugins True fx_and_instrument
        = connect_no_prev_next 10 20 @ concat (replicate 9 (connect_prev_next 10 20 10))
   \<and> (Plugin 20, Prefader) \<notin> set (connections_made (connect_plugins True fx_and_instrument))"
  by (simp add: fx_and_instrument_def connect_plugins_def channel_defs upt_rec numeral_eq_Suc)

section \<open>Automation values\<close>













end
